theory Spec2Isabelle
  imports Main "HOL-Library.Word"
begin

section \<open>Data model of the viewer (main.go)\<close>

text \<open>
  Go's \<open>int\<close> is modelled at its width on 64-bit targets; \<open>+\<close> and \<open>-\<close> wrap around as in Go.
  An error value is represented by its message.
\<close>

type_synonym go_int = "64 word"
type_synonym error = string

text \<open>\<open>image.Point\<close>, \<open>image.Rectangle\<close> and the operations of package \<open>image\<close> that
  \<open>display\<close> and \<open>main\<close> call.\<close>

record Point =
  X :: go_int
  Y :: go_int

record Rectangle =
  Min_r :: Point
  Max_r :: Point

definition Point_zero :: Point where
  \<comment> \<open>\<open>image.Point{}\<close>\<close>
  "Point_zero = \<lparr>X = 0, Y = 0\<rparr>"

definition Add :: "Point \<Rightarrow> Point \<Rightarrow> Point" where
  "Add p q = \<lparr>X = X p + X q, Y = Y p + Y q\<rparr>"

definition Rect :: "go_int \<Rightarrow> go_int \<Rightarrow> go_int \<Rightarrow> go_int \<Rightarrow> Rectangle" where
  "Rect x0 y0 x1 y1 =
     (let (x0', x1') = (if x1 <s x0 then (x1, x0) else (x0, x1));
          (y0', y1') = (if y1 <s y0 then (y1, y0) else (y0, y1))
      in \<lparr>Min_r = \<lparr>X = x0', Y = y0'\<rparr>, Max_r = \<lparr>X = x1', Y = y1'\<rparr>\<rparr>)"

definition Empty :: "Rectangle \<Rightarrow> bool" where
  "Empty r \<longleftrightarrow> X (Max_r r) \<le>s X (Min_r r) \<or> Y (Max_r r) \<le>s Y (Min_r r)"

definition In :: "Rectangle \<Rightarrow> Rectangle \<Rightarrow> bool" where
  "In r s \<longleftrightarrow>
     (if Empty r then True
      else X (Min_r s) \<le>s X (Min_r r) \<and> X (Max_r r) \<le>s X (Max_r s) \<and>
           Y (Min_r s) \<le>s Y (Min_r r) \<and> Y (Max_r r) \<le>s Y (Max_r s))"

definition Dx :: "Rectangle \<Rightarrow> go_int" where
  "Dx r = X (Max_r r) - X (Min_r r)"

definition Dy :: "Rectangle \<Rightarrow> go_int" where
  "Dy r = Y (Max_r r) - Y (Min_r r)"

text \<open>A decoded \<open>image.Image\<close>: its bounds, and a number standing for its pixel content.\<close>

record Image =
  Bounds :: Rectangle
  pixels :: nat

subsection \<open>The windowing toolkit\<close>

text \<open>
  The toolkit is outside the repository. A \<open>screen.Buffer\<close> is known by its size, a
  \<open>screen.Window\<close> by its current size; \<open>screen.Screen\<close> is the pair of its two
  allocation functions, each of which may fail.
\<close>

datatype Buffer = Buffer Point

record Window =
  Size :: Point

record NewWindowOptions =
  Width :: go_int
  Height :: go_int

record Screen =
  NewWindow :: "NewWindowOptions \<Rightarrow> error + Window"
  NewBuffer :: "Point \<Rightarrow> error + Buffer"

datatype mouse_Button = ButtonNone | ButtonLeft | ButtonMiddle | ButtonRight
  | ButtonWheelUp | ButtonWheelDown | ButtonWheelLeft | ButtonWheelRight

datatype mouse_Direction = mouse_DirNone | mouse_DirPress | mouse_DirRelease | mouse_DirStep

datatype key_Direction = key_DirNone | key_DirPress | key_DirRelease

datatype key_Code = CodeEscape | CodeQ | CodeRightArrow | CodeLeftArrow | CodeR | CodeZ
  | CodeOther nat

text \<open>The coordinates of a mouse event are \<open>float32\<close> in the toolkit; the viewer reads them
  only through \<open>int(e.X)\<close> and \<open>int(e.Y)\<close>, and the event carries these two integers.\<close>

datatype event =
    mouse_Event (m_X: go_int) (m_Y: go_int) (m_Button: mouse_Button) (m_Direction: mouse_Direction)
  | key_Event (k_Code: key_Code) (k_Direction: key_Direction)
  | paint_Event (External: bool)
  | size_Event (new_size: Point)
  | UploadedEvent
  | error_Event error
  | other_Event string

text \<open>What the viewer asks of the toolkit and prints, in program order.\<close>

datatype action =
    Fill Rectangle
  | Draw Buffer Image
  | Upload Point Buffer Rectangle
  | Publish
  | Send_paint
  | Resize Point
  | Release_Buffer Buffer
  | Release_Window
  | Printf_got event
  | log_Print "string list"
  | log_Printf string "string list"
  | log_Println "string list"
  | Fprint_stderr string
  | Fprintf_stderr string "string list"
  | PrintDefaults
  | StartCPUProfile string
  | StopCPUProfile

record window =
  s :: Screen
  w :: Window
  b :: Buffer
  orig :: Point
  pan :: bool
  mouse :: Point

text \<open>The variables of the event loop of \<open>main\<close>: the window, the index \<open>i\<close> of the image
  on display, and the actions performed so far. The index is an \<open>int\<close>: it never leaves
  \<open>-1 .. len(imgs)\<close>, which a Go \<open>int\<close> holds without wrapping.\<close>

record loop_state =
  win :: window
  cur_i :: int
  acts :: "action list"

datatype 'a outcome =
    Continue 'a
  | Returned 'a
  | Fatal error 'a
  | Panic

section \<open>The window (main.go, lines 221--295)\<close>

definition newWindow :: "Screen \<Rightarrow> Point \<Rightarrow> error + window" where
  "newWindow scr sz =
     (case NewWindow scr \<lparr>Width = X sz, Height = Y sz\<rparr> of
        Inl err \<Rightarrow> Inl err
      | Inr w' \<Rightarrow>
          (case NewBuffer scr sz of
             Inl err \<Rightarrow> Inl err
           | Inr buf \<Rightarrow>
               Inr \<lparr>s = scr, w = w', b = buf, orig = Point_zero, pan = False,
                    mouse = Point_zero\<rparr>))"

text \<open>\<open>display\<close> changes no field of the window; it returns the toolkit calls it makes.
  \<open>vpCenter\<close> is a helper of the repository outside \<open>main.go\<close> and is a parameter.\<close>

definition display ::
  "(Image \<Rightarrow> go_int \<Rightarrow> go_int \<Rightarrow> Point) \<Rightarrow> window \<Rightarrow> Image \<Rightarrow> action list" where
  "display vpCenter wn img =
     (let sz = Size (w wn);
          rect = Rect 0 0 (X sz) (Y sz);
          dp = vpCenter img (X sz) (Y sz);
          sr = Bounds img;
          sr' = (if \<not> In sr rect then rect else sr)
      in [Fill rect, Draw (b wn) img, Upload (Add dp (orig wn)) (b wn) sr', Publish])"

text \<open>\<open>newBufferSize\<close> releases the old buffer and stores what \<open>NewBuffer\<close> returned; on
  failure the buffer field is left as it was in the model (Go stores a nil buffer, which
  is never read because the caller exits). \<open>Release\<close>, which sets \<open>w.s\<close> to nil, runs
  only when \<open>main\<close> returns, so \<open>w.s\<close> is a screen here.\<close>

definition newBufferSize :: "window \<Rightarrow> Point \<Rightarrow> window \<times> action list \<times> error option" where
  "newBufferSize wn sz =
     (case NewBuffer (s wn) sz of
        Inl err \<Rightarrow> (wn, [Release_Buffer (b wn)], Some err)
      | Inr buf \<Rightarrow> (wn\<lparr>b := buf\<rparr>, [Release_Buffer (b wn)], None))"

definition newBuffer :: "window \<Rightarrow> window \<times> action list \<times> error option" where
  "newBuffer wn = newBufferSize wn (Size (w wn))"

section \<open>The event loop of main (main.go, lines 124--217)\<close>

text \<open>\<open>imgs[i]\<close> panics outside \<open>0 .. len(imgs) - 1\<close>.\<close>

definition index :: "'a list \<Rightarrow> int \<Rightarrow> 'a option" where
  "index xs i = (if 0 \<le> i \<and> i < int (length xs) then Some (xs ! nat i) else None)"

text \<open>\<open>next\<close>: the toolkit hands over the next event; when it is a size event the window
  already has the new size.\<close>

definition next_ev :: "window \<Rightarrow> event \<Rightarrow> window" where
  "next_ev wn e = (case e of size_Event sz \<Rightarrow> wn\<lparr>w := (w wn)\<lparr>Size := sz\<rparr>\<rparr> | _ \<Rightarrow> wn)"

definition on_mouse :: "loop_state \<Rightarrow> event \<Rightarrow> loop_state" where
  "on_mouse st e =
     (let wn = win st in
      case m_Direction e of
        mouse_DirPress \<Rightarrow>
          (if m_Button e = ButtonLeft
           then st\<lparr>win := wn\<lparr>pan := True, mouse := \<lparr>X = m_X e, Y = m_Y e\<rparr>\<rparr>\<rparr>
           else st)
      | mouse_DirRelease \<Rightarrow>
          (if m_Button e = ButtonLeft
           then st\<lparr>win := wn\<lparr>pan := False, mouse := Point_zero\<rparr>\<rparr>
           else st)
      | mouse_DirNone \<Rightarrow>
          (if pan wn
           then (let pos = \<lparr>X = m_X e, Y = m_Y e\<rparr> in
                 st\<lparr>win := wn\<lparr>orig := \<lparr>X = X (orig wn) + (X pos - X (mouse wn)),
                                          Y = Y (orig wn) + (Y pos - Y (mouse wn))\<rparr>,
                                 mouse := pos\<rparr>,
                    acts := acts st @ [Send_paint]\<rparr>)
           else st)
      | mouse_DirStep \<Rightarrow> st)"

definition on_key :: "Image list \<Rightarrow> loop_state \<Rightarrow> event \<Rightarrow> loop_state outcome" where
  "on_key imgs st e =
     (let wn = win st; i = cur_i st in
      case k_Code e of
        CodeEscape \<Rightarrow> Returned st
      | CodeQ \<Rightarrow> Returned st
      | CodeRightArrow \<Rightarrow>
          (if k_Direction e = key_DirPress
           then (let i' = (if i = int (length imgs) - 1 then -1 else i) in
                 Continue (st\<lparr>cur_i := i' + 1, win := wn\<lparr>orig := Point_zero\<rparr>,
                              acts := acts st @ [Send_paint]\<rparr>))
           else Continue st)
      | CodeLeftArrow \<Rightarrow>
          (if k_Direction e = key_DirPress
           then (let i' = (if i = 0 then int (length imgs) else i) in
                 Continue (st\<lparr>cur_i := i' - 1, win := wn\<lparr>orig := Point_zero\<rparr>,
                              acts := acts st @ [Send_paint]\<rparr>))
           else Continue st)
      | CodeR \<Rightarrow>
          (if k_Direction e = key_DirPress
           then Continue (st\<lparr>acts := acts st @ [Send_paint]\<rparr>)
           else Continue st)
      | CodeZ \<Rightarrow>
          (if k_Direction e = key_DirPress
           then (case index imgs i of
                   None \<Rightarrow> Panic
                 | Some img \<Rightarrow>
                     Continue (st\<lparr>win := wn\<lparr>orig := Point_zero\<rparr>,
                                  acts := acts st @ [Resize (Max_r (Bounds img))]\<rparr>))
           else Continue st)
      | CodeOther _ \<Rightarrow> Continue st)"

text \<open>One turn of the \<open>for\<close> loop: \<open>w.next()\<close> and the type switch on the event.\<close>

definition handle ::
  "(Image \<Rightarrow> go_int \<Rightarrow> go_int \<Rightarrow> Point) \<Rightarrow> Image list \<Rightarrow> loop_state \<Rightarrow> event
     \<Rightarrow> loop_state outcome" where
  "handle vpCenter imgs st0 e =
     (let st = st0\<lparr>win := next_ev (win st0) e\<rparr> in
      case e of
        mouse_Event _ _ _ _ \<Rightarrow> Continue (on_mouse st e)
      | key_Event _ _ \<Rightarrow> on_key imgs st e
      | paint_Event ext \<Rightarrow>
          (if ext then Continue st
           else (case index imgs (cur_i st) of
                   None \<Rightarrow> Panic
                 | Some img \<Rightarrow> Continue (st\<lparr>acts := acts st @ display vpCenter (win st) img\<rparr>)))
      | size_Event _ \<Rightarrow>
          (case newBuffer (win st) of
             (wn', as, Some err) \<Rightarrow> Fatal err (st\<lparr>win := wn', acts := acts st @ as\<rparr>)
           | (wn', as, None) \<Rightarrow>
               (case index imgs (cur_i st) of
                  None \<Rightarrow> Panic
                | Some img \<Rightarrow>
                    Continue (st\<lparr>win := wn', acts := acts st @ as @ display vpCenter wn' img\<rparr>)))
      | UploadedEvent \<Rightarrow> Continue st
      | error_Event err \<Rightarrow> Continue (st\<lparr>acts := acts st @ [log_Print [err]]\<rparr>)
      | other_Event _ \<Rightarrow> Continue (st\<lparr>acts := acts st @ [Printf_got e]\<rparr>))"

text \<open>The loop over the events that \<open>w.next()\<close> returns, among them the paint events the
  viewer sent to itself. \<open>Continue\<close> at the end of the list is the loop blocked in
  \<open>w.next()\<close>.\<close>

fun loop ::
  "(Image \<Rightarrow> go_int \<Rightarrow> go_int \<Rightarrow> Point) \<Rightarrow> Image list \<Rightarrow> loop_state \<Rightarrow> event list
     \<Rightarrow> loop_state outcome" where
  "loop vpCenter imgs st [] = Continue st"
| "loop vpCenter imgs st (e # es) =
     (case handle vpCenter imgs st e of
        Continue st' \<Rightarrow> loop vpCenter imgs st' es
      | r \<Rightarrow> r)"

section \<open>Finding and decoding the files (main.go, lines 297--379)\<close>

text \<open>
  The operating system and the libraries, as the program sees them: the result of each call
  is a function of its argument. \<open>basename\<close> and \<open>vpCenter\<close> are helpers of the repository
  outside \<open>main.go\<close>. \<open>Stat\<close> answers with \<open>IsDir\<close>; \<open>Decode\<close> with the image and the
  name of its format; \<open>elapsed\<close> is the text of \<open>time.Since(start)\<close> for a file.
\<close>

datatype File = File string

record World =
  os_Args0 :: string
  os_Create :: "string \<Rightarrow> error option"
  os_Stat :: "string \<Rightarrow> error + bool"
  os_Open :: "string \<Rightarrow> error + File"
  Readdirnames :: "File \<Rightarrow> string list \<times> error option"
  image_Decode :: "File \<Rightarrow> error + Image \<times> string"
  elapsed :: "string \<Rightarrow> string"
  filepath_Ext :: "string \<Rightarrow> string"
  filepath_Join :: "string \<Rightarrow> string \<Rightarrow> string"
  basename :: "string \<Rightarrow> string"
  vpCenter :: "Image \<Rightarrow> go_int \<Rightarrow> go_int \<Rightarrow> Point"
  screen :: Screen
  events :: "event list"

text \<open>\<open>fd, _ := os.Open(dir)\<close> leaves a nil file when the directory cannot be opened, and
  \<open>Readdirnames\<close> on a nil file returns no name and an error.\<close>

definition Readdirnames_of :: "World \<Rightarrow> File option \<Rightarrow> string list \<times> error option" where
  "Readdirnames_of W fd =
     (case fd of None \<Rightarrow> ([], Some ''invalid argument'') | Some f \<Rightarrow> Readdirnames W f)"

fun dirImages_loop :: "World \<Rightarrow> string \<Rightarrow> string list \<Rightarrow> string list \<Rightarrow> string list" where
  "dirImages_loop W dir [] files = files"
| "dirImages_loop W dir (f # fs) files =
     (if filepath_Ext W f \<noteq> []
      then dirImages_loop W dir fs (files @ [filepath_Join W dir f])
      else dirImages_loop W dir fs files)"

definition dirImages :: "World \<Rightarrow> string \<Rightarrow> string list" where
  "dirImages W dir =
     (let fd = (case os_Open W dir of Inl _ \<Rightarrow> None | Inr f \<Rightarrow> Some f);
          fs = fst (Readdirnames_of W fd)
      in dirImages_loop W dir fs [])"

text \<open>\<open>findFiles\<close> returns the files and what it logged.\<close>

fun findFiles_loop ::
  "World \<Rightarrow> string list \<Rightarrow> string list \<Rightarrow> action list \<Rightarrow> string list \<times> action list" where
  "findFiles_loop W [] files lg = (files, lg)"
| "findFiles_loop W (f # args) files lg =
     (case os_Stat W f of
        Inl err \<Rightarrow> findFiles_loop W args files (lg @ [log_Print [''Can't access'', f, err]])
      | Inr isDir \<Rightarrow>
          (if isDir then findFiles_loop W args (files @ dirImages W f) lg
           else findFiles_loop W args (files @ [f]) lg))"

definition findFiles :: "World \<Rightarrow> string list \<Rightarrow> string list \<times> action list" where
  "findFiles W args = findFiles_loop W args [] []"

record tmpImage =
  img :: Image
  name :: string

text \<open>
  The body of the goroutine started for one file: what it does to its channel (\<open>None\<close>: it
  closes the channel without sending; \<open>Some t\<close>: it sends \<open>t\<close>) and what it logs. The
  goroutines share no variable, each channel is written by one of them and read once by
  the main task, so what the main task reads from channel \<open>i\<close> is this value.
\<close>

definition decode_task :: "World \<Rightarrow> string \<Rightarrow> tmpImage option \<times> action list" where
  "decode_task W fName =
     (case os_Open W fName of
        Inl err \<Rightarrow> (None, [log_Println [err]])
      | Inr file \<Rightarrow>
          (case image_Decode W file of
             Inl err \<Rightarrow>
               (None, [log_Printf ''Could not decode '%s' into a supported image format: %s''
                         [fName, err]])
           | Inr (im, kind) \<Rightarrow>
               (Some \<lparr>img = im, name = basename W fName\<rparr>,
                [log_Printf ''Decoded '%s' into image type '%s' (%s).''
                   [fName, kind, elapsed W fName]])))"

text \<open>The collecting loop of the main task: the channels are read in order.\<close>

fun collect ::
  "tmpImage option list \<Rightarrow> string list \<Rightarrow> Image list \<Rightarrow> string list \<times> Image list" where
  "collect [] names imgs = (names, imgs)"
| "collect (imgChan # imgChans) names imgs =
     (case imgChan of
        Some tmpImg \<Rightarrow> collect imgChans (names @ [name tmpImg]) (imgs @ [img tmpImg])
      | None \<Rightarrow> collect imgChans names imgs)"

text \<open>\<open>decodeImages\<close> returns the names, the images, and the log lines of the tasks (listed
  task by task; the goroutines may interleave them in any order).\<close>

definition decodeImages :: "World \<Rightarrow> string list \<Rightarrow> string list \<times> Image list \<times> action list" where
  "decodeImages W imageFiles =
     (let tasks = map (decode_task W) imageFiles;
          (names, imgs) = collect (map fst tasks) [] []
      in (names, imgs, concat (map snd tasks)))"

section \<open>Flags, init, usage and main (main.go, lines 28--219)\<close>

datatype flag_def =
    BoolVar string bool string
  | IntVar string go_int string
  | StringVar string string string

text \<open>The flags that \<open>init\<close> registers, in order, with their defaults and help texts.\<close>

definition init_flags :: "flag_def list" where
  "init_flags =
     [BoolVar ''v'' False ''If set, logging output will be printed to stderr.'',
      IntVar ''width'' 600 ''The initial width of the window.'',
      IntVar ''height'' 600 ''The initial height of the window.'',
      BoolVar ''auto-resize'' False ''If set, window will resize to size of first image.'',
      IntVar ''increment'' 20 ''The increment (in pixels) used to pan the image.'',
      StringVar ''profile'' [] ''If set, a CPU profile will be saved to the file name provided.'']"

text \<open>The values of the flag variables after \<open>flag.Parse()\<close>, and \<open>flag.Args()\<close>. A
  command line that \<open>flag.Parse\<close> rejects ends the process inside package \<open>flag\<close>; what
  follows is the program after a successful parse. The registration of the flags and the
  parse come after it, in the section on the command line.\<close>

record Flags =
  flagVerbose :: bool
  flagWidth :: go_int
  flagHeight :: go_int
  flagAutoResize :: bool
  flagStepIncrement :: go_int
  flagProfile :: string
  Args :: "string list"

text \<open>How the process stands: it called \<open>os.Exit\<close> with a status (\<open>log.Fatal\<close> is \<open>Print\<close>
  followed by \<open>os.Exit(1)\<close>), \<open>main\<close> returned, the event loop waits for the next event,
  or the process panicked.\<close>

datatype status = Exit nat | Main_returned | Waiting | Panicked

definition init :: "Flags \<Rightarrow> action list \<times> status option" where
  "init fl =
     (if flagWidth fl = 0 \<or> flagHeight fl = 0
      then ([log_Print [''The width and height must be non-zero values.'']], Some (Exit 1))
      else ([], None))"

definition usage :: "World \<Rightarrow> action list \<times> status" where
  "usage W =
     ([Fprintf_stderr ''Usage: %s [flags] image-file [image-file ...]\<newline>''
         [basename W (os_Args0 W)],
       PrintDefaults],
      Exit 1)"

definition Buffer_Bounds :: "Buffer \<Rightarrow> Rectangle" where
  "Buffer_Bounds bf = (case bf of Buffer sz \<Rightarrow> \<lparr>Min_r = Point_zero, Max_r = sz\<rparr>)"

text \<open>Lines 124--127: the index starts at 0 and the first image is displayed.\<close>

definition start ::
  "(Image \<Rightarrow> go_int \<Rightarrow> go_int \<Rightarrow> Point) \<Rightarrow> Image list \<Rightarrow> window \<Rightarrow> action list
     \<Rightarrow> loop_state outcome" where
  "start vpc imgs wn as =
     (let i = 0 in
      case index imgs i of
        None \<Rightarrow> Panic
      | Some im \<Rightarrow>
          Continue \<lparr>win = wn, cur_i = i,
                    acts = as @ [Fill (Buffer_Bounds (b wn))] @ display vpc wn im\<rparr>)"

text \<open>The function passed to \<open>driver.Main\<close>, after the images were decoded.\<close>

definition driver_Main ::
  "Flags \<Rightarrow> World \<Rightarrow> string list \<Rightarrow> Image list \<Rightarrow> action list \<Rightarrow> action list \<times> status" where
  "driver_Main fl W names imgs as =
     (if length imgs = 0
      then (as @ [log_Print [''No images specified could be shown. Quitting...'']], Exit 1)
      else
        (case (if flagAutoResize fl
               then (case (index imgs 0, index names 0) of
                       (Some im, Some nm) \<Rightarrow>
                         Some (\<lparr>X = Dx (Bounds im), Y = Dy (Bounds im)\<rparr>,
                               [log_Printf ''auto-resize from [%s]...\<newline>'' [nm]])
                     | _ \<Rightarrow> None)
               else Some (\<lparr>X = flagWidth fl, Y = flagHeight fl\<rparr>, [])) of
           None \<Rightarrow> (as, Panicked)
         | Some (winSize, lg) \<Rightarrow>
             (case newWindow (screen W) winSize of
                Inl err \<Rightarrow> (as @ lg @ [log_Print [err]], Exit 1)
              | Inr wn \<Rightarrow>
                  (case start (vpCenter W) imgs wn (as @ lg) of
                     Continue st0 \<Rightarrow>
                       (case loop (vpCenter W) imgs st0 (events W) of
                          Continue st \<Rightarrow> (acts st, Waiting)
                        | Returned st \<Rightarrow>
                            (acts st @ [Release_Buffer (b (win st)), Release_Window]
                               @ (if length (flagProfile fl) > 0 then [StopCPUProfile] else []),
                             Main_returned)
                        | Fatal err st \<Rightarrow> (acts st @ [log_Print [err]], Exit 1)
                        | Panic \<Rightarrow> (acts st0, Panicked))
                   | _ \<Rightarrow> (as @ lg, Panicked)))))"

definition main :: "Flags \<Rightarrow> World \<Rightarrow> action list \<times> status" where
  "main fl W =
     (case (if length (flagProfile fl) > 0 then os_Create W (flagProfile fl) else None) of
        Some err \<Rightarrow> ([log_Print [err]], Exit 1)
      | None \<Rightarrow>
          (let prof = (if length (flagProfile fl) > 0 then [StartCPUProfile (flagProfile fl)]
                       else [])
           in if length (Args fl) = 0
              then (prof @ [Fprint_stderr ''\<newline>'', log_Print [''No images specified.\<newline>\<newline>'']]
                      @ fst (usage W),
                    snd (usage W))
              else
                (let (files, lg1) = findFiles W (Args fl);
                     (names, imgs, lg2) = decodeImages W files
                 in driver_Main fl W names imgs (prof @ lg1 @ lg2))))"

text \<open>The process: \<open>init\<close> runs before \<open>main\<close>.\<close>

definition program :: "Flags \<Rightarrow> World \<Rightarrow> action list \<times> status" where
  "program fl W =
     (case init fl of
        (as, Some st) \<Rightarrow> (as, st)
      | (as, None) \<Rightarrow> (case main fl W of (as', st) \<Rightarrow> (as @ as', st)))"

section \<open>The command line (main.go, lines 55--68, and package flag)\<close>

text \<open>
  \<open>init\<close> registers its flags with the flag set of package \<open>flag\<close> and calls
  \<open>flag.Parse()\<close>, which reads \<open>os.Args[1:]\<close>. The flag set is the list of the registered
  flags with their current values; registering a name twice panics. The two parsers of
  \<open>strconv\<close> that the values use are parameters.
\<close>

datatype flag_Value = boolValue bool | intValue go_int | stringValue string

record Flag =
  Name :: string
  Usage :: string
  Value :: flag_Value

text \<open>\<open>ErrHelp\<close>, or the error that \<open>failf\<close> builds from a format and its arguments.\<close>

datatype flag_error = ErrHelp | failf string "string list"

record strconv =
  ParseBool :: "string \<Rightarrow> error + bool"
  ParseInt :: "string \<Rightarrow> error + go_int"

definition Var :: "flag_Value \<Rightarrow> string \<Rightarrow> string \<Rightarrow> Flag list \<Rightarrow> Flag list option" where
  "Var v nm us formal =
     (if nm \<in> set (map Name formal) then None
      else Some (formal @ [\<lparr>Name = nm, Usage = us, Value = v\<rparr>]))"

fun register :: "flag_def \<Rightarrow> Flag list \<Rightarrow> Flag list option" where
  "register (BoolVar nm d us) formal = Var (boolValue d) nm us formal"
| "register (IntVar nm d us) formal = Var (intValue d) nm us formal"
| "register (StringVar nm d us) formal = Var (stringValue d) nm us formal"

fun register_all :: "flag_def list \<Rightarrow> Flag list \<Rightarrow> Flag list option" where
  "register_all [] formal = Some formal"
| "register_all (d # ds) formal =
     (case register d formal of None \<Rightarrow> None | Some formal' \<Rightarrow> register_all ds formal')"

text \<open>\<open>Value.Set\<close>: a boolean and an integer flag parse the text, a string flag takes it.\<close>

definition Set_value :: "strconv \<Rightarrow> flag_Value \<Rightarrow> string \<Rightarrow> error + flag_Value" where
  "Set_value sc v str =
     (case v of
        boolValue _ \<Rightarrow> (case ParseBool sc str of Inl err \<Rightarrow> Inl err | Inr x \<Rightarrow> Inr (boolValue x))
      | intValue _ \<Rightarrow> (case ParseInt sc str of Inl err \<Rightarrow> Inl err | Inr x \<Rightarrow> Inr (intValue x))
      | stringValue _ \<Rightarrow> Inr (stringValue str))"

fun store :: "string \<Rightarrow> flag_Value \<Rightarrow> Flag list \<Rightarrow> Flag list" where
  "store nm v [] = []"
| "store nm v (f # fs) = (if Name f = nm then f\<lparr>Value := v\<rparr> # fs else f # store nm v fs)"

text \<open>The loop of \<open>parseOne\<close> that looks for \<open>=\<close> from the second character of the name
  on: the name before it, whether there is one, and the value after it.\<close>

fun scan_eq :: "string \<Rightarrow> string \<Rightarrow> string \<times> bool \<times> string" where
  "scan_eq pre [] = (pre, False, [])"
| "scan_eq pre (c # cs) = (if c = CHR ''='' then (pre, True, cs) else scan_eq (pre @ [c]) cs)"

definition split_name :: "string \<Rightarrow> string \<times> bool \<times> string" where
  "split_name nm = (case nm of [] \<Rightarrow> ([], False, []) | c # cs \<Rightarrow> scan_eq [c] cs)"

text \<open>One step of the parser: a flag was seen (the flag set and the remaining arguments),
  the flags are over (the positional arguments), or the step failed.\<close>

datatype parse_step = Seen "Flag list" "string list" | Stop "string list" | Failed flag_error

definition parseOne :: "strconv \<Rightarrow> Flag list \<Rightarrow> string list \<Rightarrow> parse_step" where
  "parseOne sc formal args =
     (case args of
        [] \<Rightarrow> Stop []
      | s0 # rest \<Rightarrow>
          if length s0 = 0 \<or> s0 ! 0 \<noteq> CHR ''-'' \<or> length s0 = 1 then Stop args
          else
            (let numMinuses = (if s0 ! 1 = CHR ''-'' then 2 else 1 :: nat) in
             if numMinuses = 2 \<and> length s0 = 2 then Stop rest
             else
               (let name0 = drop numMinuses s0 in
                if length name0 = 0 \<or> name0 ! 0 = CHR ''-'' \<or> name0 ! 0 = CHR ''=''
                then Failed (failf ''bad flag syntax: %s'' [s0])
                else
                  (case split_name name0 of
                     (nm, hasValue, val) \<Rightarrow>
                       (case find (\<lambda>f. Name f = nm) formal of
                          None \<Rightarrow>
                            if nm = ''help'' \<or> nm = ''h'' then Failed ErrHelp
                            else Failed (failf ''flag provided but not defined: -%s'' [nm])
                        | Some fl \<Rightarrow>
                            (case Value fl of
                               boolValue _ \<Rightarrow>
                                 (if hasValue
                                  then (case Set_value sc (Value fl) val of
                                          Inl err \<Rightarrow>
                                            Failed (failf ''invalid boolean value %q for -%s: %v''
                                                      [val, nm, err])
                                        | Inr v \<Rightarrow> Seen (store nm v formal) rest)
                                  else (case Set_value sc (Value fl) ''true'' of
                                          Inl err \<Rightarrow>
                                            Failed (failf ''invalid boolean flag %s: %v'' [nm, err])
                                        | Inr v \<Rightarrow> Seen (store nm v formal) rest))
                             | _ \<Rightarrow>
                                 (case (if \<not> hasValue \<and> length rest > 0
                                        then Some (hd rest, tl rest)
                                        else if hasValue then Some (val, rest) else None) of
                                    None \<Rightarrow> Failed (failf ''flag needs an argument: -%s'' [nm])
                                  | Some (val', rest') \<Rightarrow>
                                      (case Set_value sc (Value fl) val' of
                                         Inl err \<Rightarrow>
                                           Failed (failf ''invalid value %q for flag -%s: %v''
                                                     [val', nm, err])
                                       | Inr v \<Rightarrow> Seen (store nm v formal) rest'))))))))"

text \<open>\<open>Parse\<close> repeats \<open>parseOne\<close> until the flags are over or a step fails; every flag
  seen takes at least one argument away.\<close>

function Parse ::
  "strconv \<Rightarrow> Flag list \<Rightarrow> string list \<Rightarrow> flag_error + Flag list \<times> string list" where
  "Parse sc formal args =
     (case parseOne sc formal args of
        Seen formal' args' \<Rightarrow> Parse sc formal' args'
      | Stop args' \<Rightarrow> Inr (formal, args')
      | Failed e \<Rightarrow> Inl e)"
  by pat_completeness auto
termination
  by (relation "measure (\<lambda>(sc, formal, args). length args)")
    (auto simp: parseOne_def Let_def
      split: list.splits if_splits prod.splits option.splits flag_Value.splits sum.splits)

text \<open>The flag variables of lines 28--45, read from the flag each is bound to; a variable
  that no flag is bound to holds Go's zero value.\<close>

definition lookup_flag :: "Flag list \<Rightarrow> string \<Rightarrow> flag_Value option" where
  "lookup_flag formal nm = map_option Value (find (\<lambda>f. Name f = nm) formal)"

definition bool_var :: "Flag list \<Rightarrow> string \<Rightarrow> bool" where
  "bool_var formal nm = (case lookup_flag formal nm of Some (boolValue x) \<Rightarrow> x | _ \<Rightarrow> False)"

definition int_var :: "Flag list \<Rightarrow> string \<Rightarrow> go_int" where
  "int_var formal nm = (case lookup_flag formal nm of Some (intValue x) \<Rightarrow> x | _ \<Rightarrow> 0)"

definition string_var :: "Flag list \<Rightarrow> string \<Rightarrow> string" where
  "string_var formal nm = (case lookup_flag formal nm of Some (stringValue x) \<Rightarrow> x | _ \<Rightarrow> [])"

definition flag_vars :: "Flag list \<Rightarrow> string list \<Rightarrow> Flags" where
  "flag_vars formal args =
     \<lparr>flagVerbose = bool_var formal ''v'',
      flagWidth = int_var formal ''width'',
      flagHeight = int_var formal ''height'',
      flagAutoResize = bool_var formal ''auto-resize'',
      flagStepIncrement = int_var formal ''increment'',
      flagProfile = string_var formal ''profile'',
      Args = args\<rparr>"

text \<open>
  The process from its command line \<open>os.Args[1:]\<close>. \<open>flag.Usage\<close> is \<open>usage\<close>, which exits
  with status 1, so a failed parse prints its error and the usage message and ends there;
  \<open>-h\<close> and \<open>-help\<close> print the usage message only.
\<close>

definition iview :: "strconv \<Rightarrow> World \<Rightarrow> string list \<Rightarrow> action list \<times> status" where
  "iview sc W argv =
     (case register_all init_flags [] of
        None \<Rightarrow> ([], Panicked)
      | Some formal \<Rightarrow>
          (case Parse sc formal argv of
             Inl ErrHelp \<Rightarrow> usage W
           | Inl (failf fmt as) \<Rightarrow> (Fprintf_stderr fmt as # fst (usage W), snd (usage W))
           | Inr (formal', args) \<Rightarrow> program (flag_vars formal' args) W))"

section \<open>Notions used to state the properties\<close>

text \<open>The index of the image on display is a valid index of the image list.\<close>

definition in_range :: "'a list \<Rightarrow> loop_state \<Rightarrow> bool" where
  "in_range imgs st \<longleftrightarrow> 0 \<le> cur_i st \<and> cur_i st < int (length imgs)"

text \<open>The loop state an outcome carries; a panic carries none.\<close>

fun state_of :: "'a outcome \<Rightarrow> 'a option" where
  "state_of (Continue x) = Some x"
| "state_of (Returned x) = Some x"
| "state_of (Fatal _ x) = Some x"
| "state_of Panic = None"

text \<open>Mouse motion, the position of a mouse event, and the sum of the displacements along a
  path of mouse events that starts at \<open>p\<close>.\<close>

definition motion :: "event \<Rightarrow> bool" where
  "motion e = (case e of mouse_Event _ _ _ d \<Rightarrow> d = mouse_DirNone | _ \<Rightarrow> False)"

definition Sub :: "Point \<Rightarrow> Point \<Rightarrow> Point" where
  "Sub p q = \<lparr>X = X p - X q, Y = Y p - Y q\<rparr>"

definition pos_of :: "event \<Rightarrow> Point" where
  "pos_of e = \<lparr>X = m_X e, Y = m_Y e\<rparr>"

fun drag_total :: "Point \<Rightarrow> event list \<Rightarrow> Point" where
  "drag_total p [] = Point_zero"
| "drag_total p (e # es) = Add (Sub (pos_of e) p) (drag_total (pos_of e) es)"

text \<open>The image a file opens and decodes to, if it does; the names read from a directory
  (none when it cannot be opened); the log line of a file that failed to open or decode.\<close>

definition decoded :: "World \<Rightarrow> string \<Rightarrow> Image option" where
  "decoded W f =
     (case os_Open W f of
        Inl _ \<Rightarrow> None
      | Inr file \<Rightarrow> (case image_Decode W file of Inl _ \<Rightarrow> None | Inr (im, _) \<Rightarrow> Some im))"

definition dir_entries :: "World \<Rightarrow> string \<Rightarrow> string list" where
  "dir_entries W dir = (case os_Open W dir of Inl _ \<Rightarrow> [] | Inr fd \<Rightarrow> fst (Readdirnames W fd))"

definition decode_failure_logged :: "World \<Rightarrow> string \<Rightarrow> action list \<Rightarrow> bool" where
  "decode_failure_logged W f lg =
     (case os_Open W f of
        Inl err \<Rightarrow> log_Println [err] \<in> set lg
      | Inr file \<Rightarrow>
          (case image_Decode W file of
             Inl err \<Rightarrow>
               log_Printf ''Could not decode '%s' into a supported image format: %s'' [f, err]
                 \<in> set lg
           | Inr _ \<Rightarrow> False))"

text \<open>What one argument adds to the file list and to the log of \<open>findFiles\<close>.\<close>

definition expand :: "World \<Rightarrow> string \<Rightarrow> string list \<times> action list" where
  "expand W f =
     (case os_Stat W f of
        Inl err \<Rightarrow> ([], [log_Print [''Can't access'', f, err]])
      | Inr isDir \<Rightarrow> (if isDir then dirImages W f else [f], []))"

text \<open>Ways for the process to end, and what was printed.\<close>

definition aborts :: "status \<Rightarrow> bool" where
  "aborts st = (case st of Exit _ \<Rightarrow> True | _ \<Rightarrow> False)"

definition exits_nonzero :: "status \<Rightarrow> bool" where
  "exits_nonzero st = (case st of Exit n \<Rightarrow> n \<noteq> 0 | _ \<Rightarrow> False)"

definition prints_usage :: "World \<Rightarrow> action list \<Rightarrow> bool" where
  "prints_usage W out \<longleftrightarrow> set (fst (usage W)) \<subseteq> set out"

text \<open>An event that ends the loop normally; a size event whose buffer cannot be allocated;
  and whether, in a list of events, such a size event comes before any quitting key.\<close>

definition quits :: "event \<Rightarrow> bool" where
  "quits e = (case e of key_Event c _ \<Rightarrow> c = CodeEscape \<or> c = CodeQ | _ \<Rightarrow> False)"

definition size_fails :: "Screen \<Rightarrow> event \<Rightarrow> bool" where
  "size_fails scr e = (case e of size_Event sz \<Rightarrow> isl (NewBuffer scr sz) | _ \<Rightarrow> False)"

fun buffer_fails :: "Screen \<Rightarrow> event list \<Rightarrow> bool" where
  "buffer_fails scr [] = False"
| "buffer_fails scr (e # es) =
     (if quits e then False else if size_fails scr e then True else buffer_fails scr es)"

text \<open>The images that remain after decoding the arguments, the size the window is created
  with, and the failure to create the file of the CPU profile.\<close>

definition shown :: "Flags \<Rightarrow> World \<Rightarrow> Image list" where
  "shown fl W = fst (snd (decodeImages W (fst (findFiles W (Args fl)))))"

definition window_size :: "Flags \<Rightarrow> Image list \<Rightarrow> Point" where
  "window_size fl imgs =
     (case imgs of
        [] \<Rightarrow> \<lparr>X = flagWidth fl, Y = flagHeight fl\<rparr>
      | im # _ \<Rightarrow>
          (if flagAutoResize fl then \<lparr>X = Dx (Bounds im), Y = Dy (Bounds im)\<rparr>
           else \<lparr>X = flagWidth fl, Y = flagHeight fl\<rparr>))"

definition profile_fails :: "Flags \<Rightarrow> World \<Rightarrow> bool" where
  "profile_fails fl W \<longleftrightarrow> flagProfile fl \<noteq> [] \<and> os_Create W (flagProfile fl) \<noteq> None"

text \<open>The flag set after the registrations of \<open>init\<close>, and a command-line argument that
  the parser takes as positional.\<close>

definition registered :: "Flag list" where
  "registered = (case register_all init_flags [] of Some formal \<Rightarrow> formal | None \<Rightarrow> [])"

definition positional :: "string \<Rightarrow> bool" where
  "positional a \<longleftrightarrow> length a < 2 \<or> hd a \<noteq> CHR ''-''"

section \<open>A sample world\<close>

text \<open>
  A toolkit that refuses empty buffers, and a file system with one image file \<open>a.png\<close>, one
  argument that does not exist, one file that cannot be opened, and a directory \<open>pics\<close> that
  holds an image, a file without extension and a text file.
\<close>

definition ex_Screen :: Screen where
  "ex_Screen =
     \<lparr>NewWindow = (\<lambda>opts. Inr \<lparr>Size = \<lparr>X = Width opts, Y = Height opts\<rparr>\<rparr>),
      NewBuffer = (\<lambda>sz. if X sz = 0 \<or> Y sz = 0 then Inl ''empty buffer'' else Inr (Buffer sz))\<rparr>"

definition ex_Image :: "nat \<Rightarrow> Image" where
  "ex_Image k = \<lparr>Bounds = \<lparr>Min_r = Point_zero, Max_r = \<lparr>X = 40, Y = 30\<rparr>\<rparr>, pixels = k\<rparr>"

definition ex_World :: World where
  "ex_World =
     \<lparr>os_Args0 = ''iview'',
      os_Create = (\<lambda>p. if p = ''cpu.prof'' then None else Some ''permission denied''),
      os_Stat = (\<lambda>p. if p = ''pics'' then Inr True
                      else if p = ''gone.png'' then Inl ''no such file'' else Inr False),
      os_Open = (\<lambda>p. if p = ''locked.png'' then Inl ''permission denied'' else Inr (File p)),
      Readdirnames = (\<lambda>fd. case fd of File p \<Rightarrow>
                        if p = ''pics'' then ([''c.gif'', ''README'', ''d.txt''], None)
                        else ([], Some ''not a directory'')),
      image_Decode = (\<lambda>fd. case fd of File p \<Rightarrow>
                        if p = ''a.png'' \<or> p = ''pics/c.gif'' then Inr (ex_Image (length p), ''png'')
                        else Inl ''unknown format''),
      elapsed = (\<lambda>p. ''1ms''),
      filepath_Ext = (\<lambda>p. if CHR ''.'' \<in> set p
                           then CHR ''.'' # rev (takeWhile (\<lambda>c. c \<noteq> CHR ''.'') (rev p)) else []),
      filepath_Join = (\<lambda>d f. d @ ''/'' @ f),
      basename = (\<lambda>p. rev (takeWhile (\<lambda>c. c \<noteq> CHR ''/'') (rev p))),
      vpCenter = (\<lambda>im wd ht. Point_zero),
      screen = ex_Screen,
      events = []\<rparr>"

text \<open>The two parsers of \<open>strconv\<close>, on the texts the samples use.\<close>

definition ex_strconv :: strconv where
  "ex_strconv =
     \<lparr>ParseBool = (\<lambda>str. if str = ''true'' \<or> str = ''1'' then Inr True
                          else if str = ''false'' \<or> str = ''0'' then Inr False
                          else Inl ''invalid syntax''),
      ParseInt = (\<lambda>str. if str = ''1'' then Inr 1 else if str = ''800'' then Inr 800
                         else Inl ''invalid syntax'')\<rparr>"

definition ex_Flags :: Flags where
  "ex_Flags =
     \<lparr>flagVerbose = False, flagWidth = 600, flagHeight = 600, flagAutoResize = False,
      flagStepIncrement = 20, flagProfile = [],
      Args = [''a.png'', ''gone.png'', ''pics'', ''locked.png'']\<rparr>"

definition ex_state :: "int \<Rightarrow> bool \<Rightarrow> loop_state" where
  "ex_state i dragging =
     \<lparr>win = \<lparr>s = ex_Screen, w = \<lparr>Size = \<lparr>X = 600, Y = 600\<rparr>\<rparr>, b = Buffer \<lparr>X = 600, Y = 600\<rparr>,
             orig = \<lparr>X = 7, Y = 9\<rparr>, pan = dragging, mouse = \<lparr>X = 100, Y = 100\<rparr>\<rparr>,
      cur_i = i, acts = []\<rparr>"

section \<open>Decoding keeps the decodable files, in order\<close>

lemma decode_task_fst:
  "fst (decode_task W f) = map_option (\<lambda>im. \<lparr>img = im, name = basename W f\<rparr>) (decoded W f)"
  by (simp add: decode_task_def decoded_def split: sum.splits prod.splits)

lemma collect_acc:
  "collect (map (\<lambda>f. fst (decode_task W f)) fs) ns ims =
     (ns @ map (basename W) (filter (\<lambda>f. decoded W f \<noteq> None) fs),
      ims @ map (\<lambda>f. the (decoded W f)) (filter (\<lambda>f. decoded W f \<noteq> None) fs))"
proof (induction fs arbitrary: ns ims)
  case Nil
  then show ?case by simp
next
  case (Cons f fs)
  show ?case
  proof (cases "decoded W f")
    case None
    then show ?thesis using Cons.IH by (simp add: decode_task_fst)
  next
    case (Some im)
    then show ?thesis using Cons.IH by (simp add: decode_task_fst)
  qed
qed

lemma decodeImages_eq:
  "decodeImages W fs =
     (map (basename W) (filter (\<lambda>f. decoded W f \<noteq> None) fs),
      map (\<lambda>f. the (decoded W f)) (filter (\<lambda>f. decoded W f \<noteq> None) fs),
      concat (map (\<lambda>f. snd (decode_task W f)) fs))"
  using collect_acc [of W fs "[]" "[]"] by (simp add: decodeImages_def comp_def)

lemma decodeImages_lengths:
  "length (fst (decodeImages W fs)) = length (fst (snd (decodeImages W fs)))"
  by (simp add: decodeImages_eq)

text \<open>
  C1. For every list of files, \<open>decodeImages\<close> returns the names and the images of exactly
  the files that open and decode, in the order of the input: with \<open>N\<close> such files and \<open>M\<close>
  files that fail, it returns \<open>N\<close> names and \<open>N\<close> images, and \<open>N + M\<close> is the length of the
  input.
\<close>

theorem decodeImages_keeps_decoded_in_order:
  "fst (decodeImages W files) = map (basename W) (filter (\<lambda>f. decoded W f \<noteq> None) files) \<and>
   map Some (fst (snd (decodeImages W files))) =
     map (decoded W) (filter (\<lambda>f. decoded W f \<noteq> None) files) \<and>
   length (fst (decodeImages W files)) = length (filter (\<lambda>f. decoded W f \<noteq> None) files) \<and>
   length (fst (snd (decodeImages W files))) = length (filter (\<lambda>f. decoded W f \<noteq> None) files) \<and>
   length (fst (snd (decodeImages W files))) + length (filter (\<lambda>f. decoded W f = None) files)
     = length files"
proof -
  have "length (filter (\<lambda>f. decoded W f \<noteq> None) files) +
        length (filter (\<lambda>f. decoded W f = None) files) = length files"
    using sum_length_filter_compl [of "\<lambda>f. decoded W f \<noteq> None" files] by simp
  then show ?thesis
    by (simp add: decodeImages_eq comp_def cong: map_cong)
qed

theorem decodeImages_keeps_decoded_in_order_witness:
  "fst (decodeImages ex_World [''a.png'', ''pics/c.gif'', ''pics/d.txt'', ''locked.png''])
     = [''a.png'', ''c.gif''] \<and>
   length (fst (snd (decodeImages ex_World
     [''a.png'', ''pics/c.gif'', ''pics/d.txt'', ''locked.png'']))) = 2"
  using decodeImages_keeps_decoded_in_order
    [of ex_World "[''a.png'', ''pics/c.gif'', ''pics/d.txt'', ''locked.png'']"]
  by (simp add: ex_World_def decoded_def)

section \<open>Paging through the images\<close>

text \<open>
  C2. With \<open>n > 0\<close> images and the index in range, a press of the right arrow moves the
  index from \<open>n - 1\<close> to \<open>0\<close> and otherwise up by one; a press of the left arrow moves it
  from \<open>0\<close> to \<open>n - 1\<close> and otherwise down by one. In both cases the loop goes on.
\<close>

theorem arrow_keys_wrap:
  assumes "imgs \<noteq> []" and "0 \<le> cur_i st" and "cur_i st < int (length imgs)"
  shows "(\<exists>st'. handle vpc imgs st (key_Event CodeRightArrow key_DirPress) = Continue st' \<and>
           cur_i st' = (if cur_i st = int (length imgs) - 1 then 0 else cur_i st + 1)) \<and>
         (\<exists>st'. handle vpc imgs st (key_Event CodeLeftArrow key_DirPress) = Continue st' \<and>
           cur_i st' = (if cur_i st = 0 then int (length imgs) - 1 else cur_i st - 1))"
  by (simp add: handle_def on_key_def next_ev_def Let_def)

theorem arrow_keys_wrap_witness:
  "(\<exists>st'. handle (\<lambda>im wd ht. Point_zero) [ex_Image 1, ex_Image 2] (ex_state 1 False)
            (key_Event CodeRightArrow key_DirPress) = Continue st' \<and> cur_i st' = 0) \<and>
   (\<exists>st'. handle (\<lambda>im wd ht. Point_zero) [ex_Image 1, ex_Image 2] (ex_state 0 False)
            (key_Event CodeLeftArrow key_DirPress) = Continue st' \<and> cur_i st' = 1)"
  using arrow_keys_wrap [of "[ex_Image 1, ex_Image 2]" "ex_state 1 False" "\<lambda>im wd ht. Point_zero"]
    arrow_keys_wrap [of "[ex_Image 1, ex_Image 2]" "ex_state 0 False" "\<lambda>im wd ht. Point_zero"]
  by (simp add: ex_state_def)

section \<open>The index stays in range\<close>

lemma handle_in_range:
  assumes "in_range imgs st"
  shows "\<exists>st'. state_of (handle vpc imgs st e) = Some st' \<and> in_range imgs st'"
proof (cases e)
  case (key_Event c d)
  then show ?thesis using assms
    by (cases c) (auto simp: handle_def on_key_def next_ev_def in_range_def index_def Let_def)
next
  case (mouse_Event x y bt d)
  then show ?thesis using assms
    by (cases d) (auto simp: handle_def on_mouse_def next_ev_def in_range_def Let_def)
next
  case (size_Event sz)
  then show ?thesis using assms
    by (auto simp: handle_def next_ev_def in_range_def index_def Let_def newBuffer_def
        newBufferSize_def split: sum.splits)
qed (use assms in \<open>auto simp: handle_def next_ev_def in_range_def index_def Let_def\<close>)

lemma loop_in_range:
  "in_range imgs st \<Longrightarrow> \<exists>st'. state_of (loop vpc imgs st es) = Some st' \<and> in_range imgs st'"
proof (induction es arbitrary: st)
  case Nil
  then show ?case by simp
next
  case (Cons e es)
  from handle_in_range [OF Cons.prems, of vpc e]
  obtain st1 where h: "state_of (handle vpc imgs st e) = Some st1" and r: "in_range imgs st1"
    by blast
  show ?case
  proof (cases "handle vpc imgs st e")
    case (Continue x)
    with h r Cons.IH [of x] show ?thesis by simp
  qed (use h r in auto)
qed

text \<open>
  C8. With a non-empty image list, the loop starts with the index \<open>0\<close>, and after any
  sequence of events the outcome is not a panic and its index \<open>i\<close> satisfies
  \<open>0 \<le> i < len(imgs)\<close>. A panic is what \<open>imgs[i]\<close> out of bounds gives in the paint, size and
  Z-key handlers, so each of these reads is in bounds.
\<close>

theorem index_always_in_bounds:
  assumes "imgs \<noteq> []"
  shows "\<exists>st0. start vpc imgs wn as = Continue st0 \<and> cur_i st0 = 0 \<and>
           (\<forall>es. \<exists>st. state_of (loop vpc imgs st0 es) = Some st \<and>
                  0 \<le> cur_i st \<and> cur_i st < int (length imgs))"
proof -
  from assms have "index imgs 0 = Some (imgs ! 0)" by (simp add: index_def)
  then obtain st0 where s0: "start vpc imgs wn as = Continue st0" and i: "cur_i st0 = 0"
    by (simp add: start_def)
  from i assms have "in_range imgs st0" by (simp add: in_range_def)
  from loop_in_range [OF this] s0 i show ?thesis
    unfolding in_range_def by blast
qed

theorem index_always_in_bounds_witness:
  "[ex_Image 1, ex_Image 2] \<noteq> [] \<and>
   (\<exists>st0. start (\<lambda>im wd ht. Point_zero) [ex_Image 1, ex_Image 2] (win (ex_state 0 False)) []
            = Continue st0 \<and> cur_i st0 = 0 \<and>
      (\<forall>es. \<exists>st. state_of (loop (\<lambda>im wd ht. Point_zero) [ex_Image 1, ex_Image 2] st0 es) = Some st \<and>
             0 \<le> cur_i st \<and> cur_i st < 2))"
  using index_always_in_bounds
    [of "[ex_Image 1, ex_Image 2]" "\<lambda>im wd ht. Point_zero" "win (ex_state 0 False)" "[]"]
  by simp

section \<open>The pan offset\<close>

text \<open>
  C9. With the index in range, a press of the left arrow, of the right arrow or of Z leaves
  the pan offset at \<open>(0,0)\<close>; the R key (pressed or released) and a paint event (external or
  not) leave the pan offset as it was. In each case the loop goes on.
\<close>

theorem pan_offset_reset_or_kept:
  assumes "0 \<le> cur_i st" and "cur_i st < int (length imgs)"
  shows "(\<forall>c \<in> {CodeRightArrow, CodeLeftArrow, CodeZ}.
            \<exists>st'. handle vpc imgs st (key_Event c key_DirPress) = Continue st' \<and>
                  orig (win st') = Point_zero) \<and>
         (\<forall>d. \<exists>st'. handle vpc imgs st (key_Event CodeR d) = Continue st' \<and>
                  orig (win st') = orig (win st)) \<and>
         (\<forall>ext. \<exists>st'. handle vpc imgs st (paint_Event ext) = Continue st' \<and>
                  orig (win st') = orig (win st))"
  using assms by (simp add: handle_def on_key_def next_ev_def index_def Let_def)

theorem pan_offset_reset_or_kept_witness:
  "0 \<le> cur_i (ex_state 1 False) \<and>
   cur_i (ex_state 1 False) < int (length [ex_Image 1, ex_Image 2]) \<and>
   (\<exists>st'. handle (\<lambda>im wd ht. Point_zero) [ex_Image 1, ex_Image 2] (ex_state 1 False)
            (key_Event CodeZ key_DirPress) = Continue st' \<and> orig (win st') = \<lparr>X = 0, Y = 0\<rparr>) \<and>
   (\<exists>st'. handle (\<lambda>im wd ht. Point_zero) [ex_Image 1, ex_Image 2] (ex_state 1 False)
            (paint_Event False) = Continue st' \<and> orig (win st') = \<lparr>X = 7, Y = 9\<rparr>)"
  using pan_offset_reset_or_kept
    [of "ex_state 1 False" "[ex_Image 1, ex_Image 2]" "\<lambda>im wd ht. Point_zero"]
  by (simp add: ex_state_def Point_zero_def)

lemma handle_motion:
  "handle vpc imgs st (mouse_Event x y bt mouse_DirNone) =
     Continue (if pan (win st)
               then st\<lparr>win := (win st)\<lparr>orig := Add (orig (win st)) (Sub \<lparr>X = x, Y = y\<rparr> (mouse (win st))),
                                        mouse := \<lparr>X = x, Y = y\<rparr>\<rparr>,
                        acts := acts st @ [Send_paint]\<rparr>
               else st)"
  by (simp add: handle_def on_mouse_def next_ev_def Let_def Add_def Sub_def)

lemma drag_total_last:
  "es \<noteq> [] \<Longrightarrow> drag_total p es = Sub (pos_of (last es)) p"
proof (induction es arbitrary: p)
  case Nil
  then show ?case by simp
next
  case (Cons e es)
  show ?case
  proof (cases "es = []")
    case True
    then show ?thesis by (simp add: Add_def Sub_def Point_zero_def)
  next
    case False
    with Cons.IH [of "pos_of e"] show ?thesis by (simp add: Add_def Sub_def)
  qed
qed

lemma Add_assoc: "Add (Add p q) r = Add p (Add q r)"
  by (simp add: Add_def)

lemma Add_zero: "Add p Point_zero = p"
  by (simp add: Add_def Point_zero_def)

lemma loop_drag:
  "pan (win st) \<Longrightarrow> list_all motion es \<Longrightarrow>
   \<exists>st'. loop vpc imgs st es = Continue st' \<and> pan (win st') \<and> cur_i st' = cur_i st \<and>
         orig (win st') = Add (orig (win st)) (drag_total (mouse (win st)) es) \<and>
         mouse (win st') = (if es = [] then mouse (win st) else pos_of (last es))"
proof (induction es arbitrary: st)
  case Nil
  then show ?case by (simp add: Add_zero)
next
  case (Cons e es)
  from Cons.prems obtain x y bt where e: "e = mouse_Event x y bt mouse_DirNone"
    by (cases e) (auto simp: motion_def)
  let ?st1 = "st\<lparr>win := (win st)\<lparr>orig := Add (orig (win st)) (Sub \<lparr>X = x, Y = y\<rparr> (mouse (win st))),
                                   mouse := \<lparr>X = x, Y = y\<rparr>\<rparr>,
                   acts := acts st @ [Send_paint]\<rparr>"
  have h: "handle vpc imgs st e = Continue ?st1"
    using Cons.prems(1) by (simp add: e handle_motion)
  have "pan (win ?st1)" using Cons.prems(1) by simp
  moreover have "list_all motion es" using Cons.prems(2) by simp
  ultimately obtain st' where
    l: "loop vpc imgs ?st1 es = Continue st'" and p: "pan (win st')" and
    i: "cur_i st' = cur_i ?st1" and
    o: "orig (win st') = Add (orig (win ?st1)) (drag_total (mouse (win ?st1)) es)" and
    m: "mouse (win st') = (if es = [] then mouse (win ?st1) else pos_of (last es))"
    using Cons.IH [of ?st1] by blast
  show ?case
    using h l p i o m by (simp add: e pos_of_def Add_assoc)
qed

text \<open>
  C10. A press of the left button sets the drag flag and records the position; its release
  clears the flag; neither changes the pan offset. A motion event with the flag set adds
  its displacement from the recorded position to the pan offset and records its own
  position; with the flag clear it changes neither. Over any run of motion events with the
  flag set, the pan offset moves by the sum of the displacements, which is the displacement
  from the position recorded at the start to the last position (in Go's \<open>int\<close> arithmetic).
\<close>

theorem drag_pans_by_displacement:
  "(\<exists>st'. handle vpc imgs st (mouse_Event x y ButtonLeft mouse_DirPress) = Continue st' \<and>
      pan (win st') \<and> mouse (win st') = \<lparr>X = x, Y = y\<rparr> \<and> orig (win st') = orig (win st)) \<and>
   (\<exists>st'. handle vpc imgs st (mouse_Event x y ButtonLeft mouse_DirRelease) = Continue st' \<and>
      \<not> pan (win st') \<and> orig (win st') = orig (win st)) \<and>
   (\<exists>st'. handle vpc imgs st (mouse_Event x y bt mouse_DirNone) = Continue st' \<and>
      pan (win st') = pan (win st) \<and>
      orig (win st') =
        (if pan (win st) then Add (orig (win st)) (Sub \<lparr>X = x, Y = y\<rparr> (mouse (win st)))
         else orig (win st)) \<and>
      mouse (win st') = (if pan (win st) then \<lparr>X = x, Y = y\<rparr> else mouse (win st))) \<and>
   (pan (win st) \<and> list_all motion es \<longrightarrow>
      (\<exists>st'. loop vpc imgs st es = Continue st' \<and> pan (win st') \<and>
         orig (win st') = Add (orig (win st)) (drag_total (mouse (win st)) es) \<and>
         (es \<noteq> [] \<longrightarrow> mouse (win st') = pos_of (last es) \<and>
            drag_total (mouse (win st)) es = Sub (pos_of (last es)) (mouse (win st)))))"
proof (intro conjI impI)
  show "\<exists>st'. handle vpc imgs st (mouse_Event x y ButtonLeft mouse_DirPress) = Continue st' \<and>
      pan (win st') \<and> mouse (win st') = \<lparr>X = x, Y = y\<rparr> \<and> orig (win st') = orig (win st)"
    by (simp add: handle_def on_mouse_def next_ev_def Let_def)
  show "\<exists>st'. handle vpc imgs st (mouse_Event x y ButtonLeft mouse_DirRelease) = Continue st' \<and>
      \<not> pan (win st') \<and> orig (win st') = orig (win st)"
    by (simp add: handle_def on_mouse_def next_ev_def Let_def)
  show "\<exists>st'. handle vpc imgs st (mouse_Event x y bt mouse_DirNone) = Continue st' \<and>
      pan (win st') = pan (win st) \<and>
      orig (win st') =
        (if pan (win st) then Add (orig (win st)) (Sub \<lparr>X = x, Y = y\<rparr> (mouse (win st)))
         else orig (win st)) \<and>
      mouse (win st') = (if pan (win st) then \<lparr>X = x, Y = y\<rparr> else mouse (win st))"
    by (simp add: handle_motion)
next
  assume a: "pan (win st) \<and> list_all motion es"
  then obtain st' where l: "loop vpc imgs st es = Continue st'" and p: "pan (win st')" and
    o: "orig (win st') = Add (orig (win st)) (drag_total (mouse (win st)) es)" and
    m: "mouse (win st') = (if es = [] then mouse (win st) else pos_of (last es))"
    using loop_drag [of st es vpc imgs] by blast
  show "\<exists>st'. loop vpc imgs st es = Continue st' \<and> pan (win st') \<and>
         orig (win st') = Add (orig (win st)) (drag_total (mouse (win st)) es) \<and>
         (es \<noteq> [] \<longrightarrow> mouse (win st') = pos_of (last es) \<and>
            drag_total (mouse (win st)) es = Sub (pos_of (last es)) (mouse (win st)))"
    using l p o m by (simp add: drag_total_last)
qed

theorem drag_pans_by_displacement_witness:
  "pan (win (ex_state 0 True)) \<and>
   list_all motion [mouse_Event 110 105 ButtonNone mouse_DirNone,
                    mouse_Event 130 90 ButtonNone mouse_DirNone] \<and>
   (\<exists>st'. loop (\<lambda>im wd ht. Point_zero) [ex_Image 1] (ex_state 0 True)
            [mouse_Event 110 105 ButtonNone mouse_DirNone,
             mouse_Event 130 90 ButtonNone mouse_DirNone] = Continue st' \<and>
          orig (win st') = \<lparr>X = 37, Y = - 1\<rparr> \<and> mouse (win st') = \<lparr>X = 130, Y = 90\<rparr>)"
  using drag_pans_by_displacement
    [of "\<lambda>im wd ht. Point_zero" "[ex_Image 1]" "ex_state 0 True" 0 0 ButtonNone
        "[mouse_Event 110 105 ButtonNone mouse_DirNone,
          mouse_Event 130 90 ButtonNone mouse_DirNone]"]
  by (auto simp add: ex_state_def motion_def pos_of_def Add_def Sub_def Point_zero_def)

section \<open>Expanding the arguments; failures of single files\<close>

lemma dirImages_loop_acc:
  "dirImages_loop W dir fs files =
     files @ map (filepath_Join W dir) (filter (\<lambda>f. filepath_Ext W f \<noteq> []) fs)"
  by (induction fs arbitrary: files) simp_all

text \<open>
  C5. \<open>dirImages\<close> returns, in the order of the directory listing, the names read from the
  directory that have a non-empty extension, each joined with the directory path, and
  nothing else (the listing is empty when the directory cannot be opened).
\<close>

theorem dirImages_nonempty_ext:
  "dirImages W dir =
     map (filepath_Join W dir) (filter (\<lambda>f. filepath_Ext W f \<noteq> []) (dir_entries W dir)) \<and>
   (\<forall>p. p \<in> set (dirImages W dir) \<longleftrightarrow>
      (\<exists>f \<in> set (dir_entries W dir). filepath_Ext W f \<noteq> [] \<and> p = filepath_Join W dir f))"
  by (auto simp: dirImages_def dirImages_loop_acc dir_entries_def Readdirnames_of_def
      split: sum.splits)

theorem dirImages_nonempty_ext_witness:
  "dir_entries ex_World ''pics'' = [''c.gif'', ''README'', ''d.txt''] \<and>
   dirImages ex_World ''pics'' = [''pics/c.gif'', ''pics/d.txt'']"
  using dirImages_nonempty_ext [of ex_World "''pics''"]
  by (simp add: ex_World_def dir_entries_def)

lemma findFiles_loop_acc:
  "findFiles_loop W args files lg =
     (files @ concat (map (\<lambda>f. fst (expand W f)) args),
      lg @ concat (map (\<lambda>f. snd (expand W f)) args))"
  by (induction args arbitrary: files lg) (simp_all add: expand_def split: sum.splits)

lemma findFiles_eq:
  "findFiles W args =
     (concat (map (\<lambda>f. fst (expand W f)) args), concat (map (\<lambda>f. snd (expand W f)) args))"
  by (simp add: findFiles_def findFiles_loop_acc)

text \<open>
  C6. An argument whose \<open>Stat\<close> fails adds no file: the files found are those of the
  arguments before it followed by those of the arguments after it, and the failure is in
  the log. A file that fails to open or decode adds no name and no image: the names and
  images are those of the files before it followed by those of the files after it, and the
  failure is in the log. Both functions return a value in every case.
\<close>

theorem per_file_failure_skips_that_file:
  "(\<forall>err. os_Stat W f = Inl err \<longrightarrow>
      fst (findFiles W (xs @ f # ys)) = fst (findFiles W xs) @ fst (findFiles W ys) \<and>
      log_Print [''Can't access'', f, err] \<in> set (snd (findFiles W (xs @ f # ys)))) \<and>
   (decoded W f = None \<longrightarrow>
      fst (decodeImages W (xs @ f # ys)) = fst (decodeImages W xs) @ fst (decodeImages W ys) \<and>
      fst (snd (decodeImages W (xs @ f # ys))) =
        fst (snd (decodeImages W xs)) @ fst (snd (decodeImages W ys)) \<and>
      decode_failure_logged W f (snd (snd (decodeImages W (xs @ f # ys)))))"
proof (intro conjI allI impI)
  fix err
  assume a: "os_Stat W f = Inl err"
  show "fst (findFiles W (xs @ f # ys)) = fst (findFiles W xs) @ fst (findFiles W ys)"
    using a by (simp add: findFiles_eq expand_def)
  show "log_Print [''Can't access'', f, err] \<in> set (snd (findFiles W (xs @ f # ys)))"
    using a by (simp add: findFiles_eq expand_def)
next
  assume a: "decoded W f = None"
  show "fst (decodeImages W (xs @ f # ys)) = fst (decodeImages W xs) @ fst (decodeImages W ys)"
    using a by (simp add: decodeImages_eq)
  show "fst (snd (decodeImages W (xs @ f # ys))) =
        fst (snd (decodeImages W xs)) @ fst (snd (decodeImages W ys))"
    using a by (simp add: decodeImages_eq)
  show "decode_failure_logged W f (snd (snd (decodeImages W (xs @ f # ys))))"
    using a
    by (auto simp: decodeImages_eq decode_failure_logged_def decode_task_def decoded_def
        split: sum.splits prod.splits)
qed

theorem per_file_failure_skips_that_file_witness:
  "os_Stat ex_World ''gone.png'' = Inl ''no such file'' \<and>
   decoded ex_World ''gone.png'' = None \<and>
   fst (findFiles ex_World ([''a.png''] @ ''gone.png'' # [''pics''])) =
     [''a.png'', ''pics/c.gif'', ''pics/d.txt''] \<and>
   log_Print [''Can't access'', ''gone.png'', ''no such file'']
     \<in> set (snd (findFiles ex_World ([''a.png''] @ ''gone.png'' # [''pics'']))) \<and>
   fst (decodeImages ex_World ([''a.png''] @ ''gone.png'' # [''pics/c.gif''])) =
     [''a.png'', ''c.gif''] \<and>
   decode_failure_logged ex_World ''gone.png''
     (snd (snd (decodeImages ex_World ([''a.png''] @ ''gone.png'' # [''pics/c.gif'']))))"
proof -
  have st: "os_Stat ex_World ''gone.png'' = Inl ''no such file''"
    by (simp add: ex_World_def)
  have de: "decoded ex_World ''gone.png'' = None"
    by (simp add: ex_World_def decoded_def)
  have f1: "fst (findFiles ex_World [''a.png'']) = [''a.png'']"
    by (simp add: findFiles_def ex_World_def)
  have f2: "fst (findFiles ex_World [''pics'']) = [''pics/c.gif'', ''pics/d.txt'']"
    by (simp add: findFiles_def dirImages_def Readdirnames_of_def ex_World_def)
  have d1: "fst (decodeImages ex_World [''a.png'']) = [''a.png'']"
    by (simp add: decodeImages_def decode_task_def ex_World_def)
  have d2: "fst (decodeImages ex_World [''pics/c.gif'']) = [''c.gif'']"
    by (simp add: decodeImages_def decode_task_def ex_World_def)
  show ?thesis
    using per_file_failure_skips_that_file [of ex_World "''gone.png''" "[''a.png'']" "[''pics'']"]
      per_file_failure_skips_that_file [of ex_World "''gone.png''" "[''a.png'']" "[''pics/c.gif'']"]
      st de f1 f2 d1 d2
    by simp
qed

section \<open>Flags and the ways the process ends\<close>

lemma register_all_init:
  "register_all init_flags [] = Some
     [\<lparr>Name = ''v'', Usage = ''If set, logging output will be printed to stderr.'',
        Value = boolValue False\<rparr>,
      \<lparr>Name = ''width'', Usage = ''The initial width of the window.'', Value = intValue 600\<rparr>,
      \<lparr>Name = ''height'', Usage = ''The initial height of the window.'', Value = intValue 600\<rparr>,
      \<lparr>Name = ''auto-resize'', Usage = ''If set, window will resize to size of first image.'',
        Value = boolValue False\<rparr>,
      \<lparr>Name = ''increment'', Usage = ''The increment (in pixels) used to pan the image.'',
        Value = intValue 20\<rparr>,
      \<lparr>Name = ''profile'',
        Usage = ''If set, a CPU profile will be saved to the file name provided.'',
        Value = stringValue []\<rparr>]"
  by (simp add: init_flags_def Var_def)

lemma registered_eq:
  "registered =
     [\<lparr>Name = ''v'', Usage = ''If set, logging output will be printed to stderr.'',
        Value = boolValue False\<rparr>,
      \<lparr>Name = ''width'', Usage = ''The initial width of the window.'', Value = intValue 600\<rparr>,
      \<lparr>Name = ''height'', Usage = ''The initial height of the window.'', Value = intValue 600\<rparr>,
      \<lparr>Name = ''auto-resize'', Usage = ''If set, window will resize to size of first image.'',
        Value = boolValue False\<rparr>,
      \<lparr>Name = ''increment'', Usage = ''The increment (in pixels) used to pan the image.'',
        Value = intValue 20\<rparr>,
      \<lparr>Name = ''profile'',
        Usage = ''If set, a CPU profile will be saved to the file name provided.'',
        Value = stringValue []\<rparr>]"
  by (simp add: registered_def register_all_init)

lemma scan_eq_none: "CHR ''='' \<notin> set cs \<Longrightarrow> scan_eq pre cs = (pre @ cs, False, [])"
  by (induction cs arbitrary: pre) auto

lemma split_name_plain:
  "CHR ''='' \<notin> set nm \<Longrightarrow> split_name nm = (nm, False, [])"
  by (cases nm) (simp_all add: split_name_def scan_eq_none)

lemma parseOne_flag_Cons:
  assumes "c \<noteq> CHR ''-''" and "c \<noteq> CHR ''=''" and "CHR ''='' \<notin> set cs"
    and "d = ''-'' \<or> d = ''--''"
  shows "parseOne sc formal ((d @ c # cs) # rest) =
     (case find (\<lambda>f. Name f = c # cs) formal of
        None \<Rightarrow>
          if c # cs = ''help'' \<or> c # cs = ''h'' then Failed ErrHelp
          else Failed (failf ''flag provided but not defined: -%s'' [c # cs])
      | Some fl \<Rightarrow>
          (case Value fl of
             boolValue _ \<Rightarrow>
               (case Set_value sc (Value fl) ''true'' of
                  Inl err \<Rightarrow> Failed (failf ''invalid boolean flag %s: %v'' [c # cs, err])
                | Inr v \<Rightarrow> Seen (store (c # cs) v formal) rest)
           | _ \<Rightarrow>
               (case (if length rest > 0 then Some (hd rest, tl rest) else None) of
                  None \<Rightarrow> Failed (failf ''flag needs an argument: -%s'' [c # cs])
                | Some (val', rest') \<Rightarrow>
                    (case Set_value sc (Value fl) val' of
                       Inl err \<Rightarrow>
                         Failed (failf ''invalid value %q for flag -%s: %v'' [val', c # cs, err])
                     | Inr v \<Rightarrow> Seen (store (c # cs) v formal) rest'))))"
proof -
  have sp: "split_name (c # cs) = (c # cs, False, [])"
    using assms(2,3) by (simp add: split_name_plain)
  from assms(4) show ?thesis
  proof
    assume "d = ''-''"
    then show ?thesis using assms(1,2)
      by (auto simp add: parseOne_def sp Let_def split: option.splits flag_Value.splits sum.splits)
  next
    assume "d = ''--''"
    then show ?thesis using assms(1,2)
      by (auto simp add: parseOne_def sp Let_def split: option.splits flag_Value.splits sum.splits)
  qed
qed

lemma parseOne_flag:
  assumes "nm \<noteq> []" and "hd nm \<noteq> CHR ''-''" and "CHR ''='' \<notin> set nm"
    and "d = ''-'' \<or> d = ''--''"
  shows "parseOne sc formal ((d @ nm) # rest) =
     (case find (\<lambda>f. Name f = nm) formal of
        None \<Rightarrow>
          if nm = ''help'' \<or> nm = ''h'' then Failed ErrHelp
          else Failed (failf ''flag provided but not defined: -%s'' [nm])
      | Some fl \<Rightarrow>
          (case Value fl of
             boolValue _ \<Rightarrow>
               (case Set_value sc (Value fl) ''true'' of
                  Inl err \<Rightarrow> Failed (failf ''invalid boolean flag %s: %v'' [nm, err])
                | Inr v \<Rightarrow> Seen (store nm v formal) rest)
           | _ \<Rightarrow>
               (case (if length rest > 0 then Some (hd rest, tl rest) else None) of
                  None \<Rightarrow> Failed (failf ''flag needs an argument: -%s'' [nm])
                | Some (val', rest') \<Rightarrow>
                    (case Set_value sc (Value fl) val' of
                       Inl err \<Rightarrow>
                         Failed (failf ''invalid value %q for flag -%s: %v'' [val', nm, err])
                     | Inr v \<Rightarrow> Seen (store nm v formal) rest'))))"
proof -
  from assms(1) obtain c cs where nm: "nm = c # cs" by (cases nm) auto
  from assms(2,3) have "c \<noteq> CHR ''-''" "c \<noteq> CHR ''=''" "CHR ''='' \<notin> set cs"
    unfolding nm by auto
  from parseOne_flag_Cons [OF this assms(4)] show ?thesis unfolding nm .
qed

lemma find_registered_None:
  "nm \<notin> set [''v'', ''width'', ''height'', ''auto-resize'', ''increment'', ''profile'']
   \<Longrightarrow> find (\<lambda>f. Name f = nm) registered = None"
  by (auto simp: registered_eq)

lemma flag_accepted_iff:
  assumes "isl (ParseBool sc ''true'') = False" and "isl (ParseInt sc ''1'') = False"
    and "nm \<noteq> []" and "hd nm \<noteq> CHR ''-''" and "CHR ''='' \<notin> set nm"
    and "d = ''-'' \<or> d = ''--''"
  shows "(\<exists>formal' rest'. parseOne sc registered ((d @ nm) # ''1'' # rest) = Seen formal' rest')
     \<longleftrightarrow> nm \<in> set [''v'', ''width'', ''height'', ''auto-resize'', ''increment'', ''profile'']"
proof (cases "nm \<in> set [''v'', ''width'', ''height'', ''auto-resize'', ''increment'', ''profile'']")
  case False
  then show ?thesis
    using parseOne_flag [OF assms(3-6), of sc registered "''1'' # rest"]
      find_registered_None [OF False]
    by (simp split: if_splits)
next
  case True
  obtain b where b: "ParseBool sc ''true'' = Inr b" using assms(1) by (cases "ParseBool sc ''true''") auto
  obtain k where k: "ParseInt sc ''1'' = Inr k" using assms(2) by (cases "ParseInt sc ''1''") auto
  from True have "\<exists>formal' rest'. parseOne sc registered ((d @ nm) # ''1'' # rest) = Seen formal' rest'"
    using parseOne_flag [OF assms(3-6), of sc registered "''1'' # rest"] b k
    by (auto simp: registered_eq Set_value_def)
  with True show ?thesis by simp
qed

lemma Parse_positional:
  "argv \<noteq> [] \<Longrightarrow> positional (hd argv) \<Longrightarrow> Parse sc formal argv = Inr (formal, argv)"
proof -
  assume a: "argv \<noteq> []" "positional (hd argv)"
  then obtain a0 rest where argv: "argv = a0 # rest" by (cases argv) auto
  have "parseOne sc formal argv = Stop argv"
  proof (cases a0)
    case Nil
    then show ?thesis by (simp add: parseOne_def argv)
  next
    case (Cons c cs)
    then show ?thesis using a(2) by (cases cs) (auto simp: parseOne_def argv positional_def)
  qed
  then show ?thesis by (subst Parse.simps) simp
qed

lemma iview_parsed:
  "Parse sc registered argv = Inr (formal', args) \<Longrightarrow>
   iview sc W argv = program (flag_vars formal' args) W"
  by (simp add: iview_def register_all_init registered_eq)

lemma program_no_arguments:
  "Args fl = [] \<Longrightarrow> aborts (snd (program fl W))"
  by (auto simp: program_def init_def main_def usage_def aborts_def Let_def split: option.splits)

lemma program_with_arguments:
  assumes "Args fl \<noteq> []" and "flagWidth fl \<noteq> 0" and "flagHeight fl \<noteq> 0"
    and "\<not> profile_fails fl W"
  shows "\<exists>imgs lg.
     map Some imgs = map (decoded W)
       (filter (\<lambda>f. decoded W f \<noteq> None) (concat (map (\<lambda>f. fst (expand W f)) (Args fl)))) \<and>
     program fl W =
       driver_Main fl W
         (map (basename W)
            (filter (\<lambda>f. decoded W f \<noteq> None) (concat (map (\<lambda>f. fst (expand W f)) (Args fl)))))
         imgs lg"
proof -
  let ?files = "concat (map (\<lambda>f. fst (expand W f)) (Args fl))"
  let ?ok = "filter (\<lambda>f. decoded W f \<noteq> None) ?files"
  let ?imgs = "map (\<lambda>f. the (decoded W f)) ?ok"
  have m: "map Some ?imgs = map (decoded W) ?ok" by (simp cong: map_cong)
  have "\<exists>lg. program fl W = driver_Main fl W (map (basename W) ?ok) ?imgs lg"
    using assms
    by (auto simp: program_def init_def main_def profile_fails_def Let_def findFiles_eq
        decodeImages_eq split: prod.splits)
  with m show ?thesis by blast
qed

text \<open>
  C7. The flag set that \<open>init\<close> builds holds exactly the six flags \<open>v\<close>, \<open>width\<close>,
  \<open>height\<close>, \<open>auto-resize\<close>, \<open>increment\<close> and \<open>profile\<close>, and without flags on the
  command line the flag variables hold the defaults. With \<open>strconv\<close> parsing \<open>true\<close> and
  \<open>1\<close>, the parser accepts a flag \<open>-n\<close> or \<open>--n\<close> followed by the value \<open>1\<close> exactly when
  \<open>n\<close> is one of the six names. A command line that starts with a positional argument is
  all positional. When the parse leaves no positional argument the process exits; when it
  leaves one or more (and the width and height are non-zero, and the profile can be created)
  the process enters \<open>driver.Main\<close> with the names and images of the files that decode
  among those the arguments expand to, a file to itself and a directory through
  \<open>dirImages\<close>.
\<close>

theorem six_flags_and_file_arguments:
  "register_all init_flags [] = Some registered \<and>
   map Name registered =
     [''v'', ''width'', ''height'', ''auto-resize'', ''increment'', ''profile''] \<and>
   flag_vars registered args0 =
     \<lparr>flagVerbose = False, flagWidth = 600, flagHeight = 600, flagAutoResize = False,
      flagStepIncrement = 20, flagProfile = [], Args = args0\<rparr> \<and>
   (isl (ParseBool sc ''true'') = False \<and> isl (ParseInt sc ''1'') = False \<and>
    nm \<noteq> [] \<and> hd nm \<noteq> CHR ''-'' \<and> CHR ''='' \<notin> set nm \<and> (d = ''-'' \<or> d = ''--'') \<longrightarrow>
      ((\<exists>formal' rest'. parseOne sc registered ((d @ nm) # ''1'' # rest) = Seen formal' rest')
         \<longleftrightarrow> nm \<in> set [''v'', ''width'', ''height'', ''auto-resize'', ''increment'', ''profile''])) \<and>
   (argv \<noteq> [] \<and> positional (hd argv) \<longrightarrow> Parse sc registered argv = Inr (registered, argv)) \<and>
   (Parse sc registered argv = Inr (formal', []) \<longrightarrow> aborts (snd (iview sc W argv))) \<and>
   (Parse sc registered argv = Inr (formal', args) \<and> args \<noteq> [] \<and>
    flagWidth (flag_vars formal' args) \<noteq> 0 \<and> flagHeight (flag_vars formal' args) \<noteq> 0 \<and>
    \<not> profile_fails (flag_vars formal' args) W \<longrightarrow>
      (\<exists>imgs lg.
         map Some imgs = map (decoded W)
           (filter (\<lambda>f. decoded W f \<noteq> None) (concat (map (\<lambda>f. fst (expand W f)) args))) \<and>
         iview sc W argv =
           driver_Main (flag_vars formal' args) W
             (map (basename W)
                (filter (\<lambda>f. decoded W f \<noteq> None) (concat (map (\<lambda>f. fst (expand W f)) args))))
             imgs lg))"
proof (intro conjI impI)
  show "register_all init_flags [] = Some registered"
    by (simp add: register_all_init registered_eq)
  show "map Name registered =
     [''v'', ''width'', ''height'', ''auto-resize'', ''increment'', ''profile'']"
    by (simp add: registered_eq)
  show "flag_vars registered args0 =
     \<lparr>flagVerbose = False, flagWidth = 600, flagHeight = 600, flagAutoResize = False,
      flagStepIncrement = 20, flagProfile = [], Args = args0\<rparr>"
    by (simp add: registered_eq flag_vars_def bool_var_def int_var_def string_var_def
        lookup_flag_def)
next
  assume "isl (ParseBool sc ''true'') = False \<and> isl (ParseInt sc ''1'') = False \<and>
    nm \<noteq> [] \<and> hd nm \<noteq> CHR ''-'' \<and> CHR ''='' \<notin> set nm \<and> (d = ''-'' \<or> d = ''--'')"
  then show "(\<exists>formal' rest'. parseOne sc registered ((d @ nm) # ''1'' # rest) = Seen formal' rest')
         \<longleftrightarrow> nm \<in> set [''v'', ''width'', ''height'', ''auto-resize'', ''increment'', ''profile'']"
    using flag_accepted_iff [of sc nm d rest] by blast
next
  assume "argv \<noteq> [] \<and> positional (hd argv)"
  then show "Parse sc registered argv = Inr (registered, argv)"
    using Parse_positional [of argv sc registered] by blast
next
  assume p: "Parse sc registered argv = Inr (formal', [])"
  show "aborts (snd (iview sc W argv))"
    using program_no_arguments [of "flag_vars formal' []" W]
    by (simp add: iview_parsed [OF p] flag_vars_def)
next
  assume a: "Parse sc registered argv = Inr (formal', args) \<and> args \<noteq> [] \<and>
    flagWidth (flag_vars formal' args) \<noteq> 0 \<and> flagHeight (flag_vars formal' args) \<noteq> 0 \<and>
    \<not> profile_fails (flag_vars formal' args) W"
  then have p: "Parse sc registered argv = Inr (formal', args)" by blast
  have ar: "Args (flag_vars formal' args) = args" by (simp add: flag_vars_def)
  from a have "Args (flag_vars formal' args) \<noteq> []" by (simp add: ar)
  from program_with_arguments [OF this] a
  show "\<exists>imgs lg.
         map Some imgs = map (decoded W)
           (filter (\<lambda>f. decoded W f \<noteq> None) (concat (map (\<lambda>f. fst (expand W f)) args))) \<and>
         iview sc W argv =
           driver_Main (flag_vars formal' args) W
             (map (basename W)
                (filter (\<lambda>f. decoded W f \<noteq> None) (concat (map (\<lambda>f. fst (expand W f)) args))))
             imgs lg"
    by (simp add: iview_parsed [OF p] ar)
qed

theorem six_flags_and_file_arguments_witness:
  "isl (ParseBool ex_strconv ''true'') = False \<and> isl (ParseInt ex_strconv ''1'') = False \<and>
   (\<exists>formal' rest'. parseOne ex_strconv registered [''-profile'', ''1''] = Seen formal' rest') \<and>
   \<not> (\<exists>formal' rest'. parseOne ex_strconv registered [''--zoom'', ''1''] = Seen formal' rest') \<and>
   positional ''a.png'' \<and>
   Parse ex_strconv registered [''a.png'', ''-v''] = Inr (registered, [''a.png'', ''-v'']) \<and>
   Parse ex_strconv registered [''-width'', ''800'', ''--auto-resize'', ''a.png'', ''pics'']
     = Inr (store ''auto-resize'' (boolValue True) (store ''width'' (intValue 800) registered),
            [''a.png'', ''pics'']) \<and>
   flagWidth (flag_vars (store ''auto-resize'' (boolValue True)
                (store ''width'' (intValue 800) registered)) [''a.png'', ''pics'']) = 800 \<and>
   (\<exists>imgs lg.
      iview ex_strconv ex_World [''-width'', ''800'', ''--auto-resize'', ''a.png'', ''pics''] =
        driver_Main
          (flag_vars (store ''auto-resize'' (boolValue True)
             (store ''width'' (intValue 800) registered)) [''a.png'', ''pics''])
          ex_World [''a.png'', ''c.gif''] imgs lg)"
proof -
  let ?F = "store ''auto-resize'' (boolValue True) (store ''width'' (intValue 800) registered)"
  let ?argv = "[''-width'', ''800'', ''--auto-resize'', ''a.png'', ''pics'']"
  have sc: "isl (ParseBool ex_strconv ''true'') = False \<and> isl (ParseInt ex_strconv ''1'') = False"
    by (simp add: ex_strconv_def)
  have po: "positional ''a.png''" by (simp add: positional_def)
  have p: "Parse ex_strconv registered ?argv = Inr (?F, [''a.png'', ''pics''])"
    by (simp add: parseOne_def split_name_def Set_value_def ex_strconv_def registered_eq Let_def)
  have fv: "flagWidth (flag_vars ?F [''a.png'', ''pics'']) = 800 \<and>
            flagHeight (flag_vars ?F [''a.png'', ''pics'']) = 600 \<and>
            flagProfile (flag_vars ?F [''a.png'', ''pics'']) = []"
    by (simp add: flag_vars_def int_var_def string_var_def lookup_flag_def registered_eq)
  have ok: "filter (\<lambda>f. decoded ex_World f \<noteq> None)
              (concat (map (\<lambda>f. fst (expand ex_World f)) [''a.png'', ''pics'']))
            = [''a.png'', ''pics/c.gif'']"
    by (simp add: expand_def decoded_def dirImages_def Readdirnames_of_def ex_World_def)
  have bn: "map (basename ex_World) [''a.png'', ''pics/c.gif''] = [''a.png'', ''c.gif'']"
    by (simp add: ex_World_def)
  note t1 = six_flags_and_file_arguments
    [of "[]" ex_strconv "''profile''" "''-''" "[]" "[''a.png'', ''-v'']" ?F ex_World "[''a.png'', ''pics'']"]
  note t2 = six_flags_and_file_arguments
    [of "[]" ex_strconv "''zoom''" "''--''" "[]" ?argv ?F ex_World "[''a.png'', ''pics'']"]
  have a1: "\<exists>formal' rest'. parseOne ex_strconv registered [''-profile'', ''1''] = Seen formal' rest'"
    using t1 sc by simp
  have a2: "\<not> (\<exists>formal' rest'. parseOne ex_strconv registered [''--zoom'', ''1''] = Seen formal' rest')"
    using t2 sc by simp
  have a3: "Parse ex_strconv registered [''a.png'', ''-v''] = Inr (registered, [''a.png'', ''-v''])"
    using t1 po by simp
  have a4: "\<exists>imgs lg.
      iview ex_strconv ex_World ?argv =
        driver_Main (flag_vars ?F [''a.png'', ''pics'']) ex_World [''a.png'', ''c.gif''] imgs lg"
  proof -
    have "\<not> profile_fails (flag_vars ?F [''a.png'', ''pics'']) ex_World"
      using fv by (simp add: profile_fails_def)
    with t2 p fv have "\<exists>imgs lg.
         map Some imgs = map (decoded ex_World)
           (filter (\<lambda>f. decoded ex_World f \<noteq> None)
              (concat (map (\<lambda>f. fst (expand ex_World f)) [''a.png'', ''pics'']))) \<and>
         iview ex_strconv ex_World ?argv =
           driver_Main (flag_vars ?F [''a.png'', ''pics'']) ex_World
             (map (basename ex_World)
                (filter (\<lambda>f. decoded ex_World f \<noteq> None)
                   (concat (map (\<lambda>f. fst (expand ex_World f)) [''a.png'', ''pics'']))))
             imgs lg"
      by simp
    then show ?thesis unfolding ok bn by blast
  qed
  from sc a1 a2 po a3 p fv a4 show ?thesis by blast
qed

lemma handle_quits:
  "quits e \<Longrightarrow> \<exists>st'. handle vpc imgs st e = Returned st'"
  by (cases e) (auto simp: quits_def handle_def on_key_def Let_def)

lemma handle_size_fails:
  "size_fails (s (win st)) e \<Longrightarrow> \<exists>err st'. handle vpc imgs st e = Fatal err st'"
  by (cases e)
    (auto simp: size_fails_def handle_def next_ev_def newBuffer_def newBufferSize_def Let_def
      split: sum.splits)

lemma handle_goes_on:
  assumes "in_range imgs st" and "\<not> quits e" and "\<not> size_fails (s (win st)) e"
  shows "\<exists>st'. handle vpc imgs st e = Continue st' \<and> in_range imgs st' \<and>
           s (win st') = s (win st)"
proof (cases e)
  case (key_Event c d)
  then show ?thesis using assms
    by (cases c) (auto simp: handle_def on_key_def next_ev_def in_range_def index_def Let_def
        quits_def)
next
  case (mouse_Event x y bt d)
  then show ?thesis using assms
    by (cases d) (auto simp: handle_def on_mouse_def next_ev_def in_range_def Let_def)
next
  case (size_Event sz)
  then show ?thesis using assms
    by (auto simp: handle_def next_ev_def in_range_def index_def Let_def newBuffer_def
        newBufferSize_def size_fails_def split: sum.splits)
qed (use assms in \<open>auto simp: handle_def next_ev_def in_range_def index_def Let_def\<close>)

lemma loop_fatal_iff:
  "in_range imgs st \<Longrightarrow>
   (case loop vpc imgs st es of
      Fatal _ _ \<Rightarrow> buffer_fails (s (win st)) es
    | Panic \<Rightarrow> False
    | _ \<Rightarrow> \<not> buffer_fails (s (win st)) es)"
proof (induction es arbitrary: st)
  case Nil
  then show ?case by simp
next
  case (Cons e es)
  show ?case
  proof (cases "quits e")
    case True
    with handle_quits [of e vpc imgs st] show ?thesis by auto
  next
    case nq: False
    show ?thesis
    proof (cases "size_fails (s (win st)) e")
      case True
      with nq handle_size_fails [of st e vpc imgs] show ?thesis by auto
    next
      case False
      from handle_goes_on [OF Cons.prems nq False, of vpc]
      obtain st' where h: "handle vpc imgs st e = Continue st'" and r: "in_range imgs st'"
        and sc: "s (win st') = s (win st)" by blast
      from Cons.IH [OF r] sc h nq False show ?thesis
        by (auto split: outcome.splits)
    qed
  qed
qed

lemma newWindow_s: "newWindow scr sz = Inr wn \<Longrightarrow> s wn = scr"
  by (auto simp: newWindow_def split: sum.splits)

lemma driver_Main_aborts_iff:
  "length names = length imgs \<Longrightarrow>
   snd (driver_Main fl W names imgs as) \<noteq> Panicked \<and>
   (aborts (snd (driver_Main fl W names imgs as)) \<longleftrightarrow>
      imgs = [] \<or> isl (newWindow (screen W) (window_size fl imgs)) \<or>
      buffer_fails (screen W) (events W))"
proof (cases imgs)
  case Nil
  then show ?thesis by (simp add: driver_Main_def aborts_def)
next
  case (Cons im ims)
  assume len: "length names = length imgs"
  with Cons obtain nm nms where names: "names = nm # nms" by (cases names) auto
  let ?lg = "if flagAutoResize fl then [log_Printf ''auto-resize from [%s]...\<newline>'' [nm]] else []"
  have ne: "imgs \<noteq> []" using Cons by simp
  have ws: "(if flagAutoResize fl
               then (case (index imgs 0, index names 0) of
                       (Some im, Some nm) \<Rightarrow>
                         Some (\<lparr>X = Dx (Bounds im), Y = Dy (Bounds im)\<rparr>,
                               [log_Printf ''auto-resize from [%s]...\<newline>'' [nm]])
                     | _ \<Rightarrow> None)
               else Some (\<lparr>X = flagWidth fl, Y = flagHeight fl\<rparr>, []))
            = Some (window_size fl imgs, ?lg)"
    by (simp add: Cons names index_def window_size_def)
  show ?thesis
  proof (cases "newWindow (screen W) (window_size fl imgs)")
    case (Inl err)
    then show ?thesis
      using ne by (simp add: driver_Main_def ws aborts_def)
  next
    case (Inr wn)
    have sw: "s wn = screen W" using Inr by (rule newWindow_s)
    obtain st0 where st0: "start (vpCenter W) imgs wn (as @ ?lg) = Continue st0"
      and w0: "win st0 = wn" and i0: "cur_i st0 = 0"
      by (simp add: start_def index_def Cons)
    have r0: "in_range imgs st0" using i0 Cons by (simp add: in_range_def)
    have ss: "s (win st0) = screen W" using w0 sw by simp
    have "case loop (vpCenter W) imgs st0 (events W) of
            Fatal _ _ \<Rightarrow> buffer_fails (screen W) (events W)
          | Panic \<Rightarrow> False
          | _ \<Rightarrow> \<not> buffer_fails (screen W) (events W)"
      using loop_fatal_iff [OF r0, where vpc = "vpCenter W" and es = "events W"]
      unfolding ss .
    then show ?thesis
      using Inr st0 ne
      by (cases "loop (vpCenter W) imgs st0 (events W)")
        (simp_all add: driver_Main_def ws aborts_def)
  qed
qed

text \<open>
  C3, as the code has it. After a successful \<open>flag.Parse\<close> the process never panics, and
  it ends by \<open>os.Exit\<close> exactly when
  the width or the height flag is zero, or the file of the CPU profile cannot be created,
  or there is no positional argument, or no image remains after decoding, or the window or
  its first buffer cannot be created, or a size event whose buffer cannot be allocated
  arrives before a quitting key. Otherwise \<open>main\<close> returns or the loop waits for the next
  event.
\<close>

theorem program_aborts_iff:
  "snd (program fl W) \<noteq> Panicked \<and>
   (aborts (snd (program fl W)) \<longleftrightarrow>
      flagWidth fl = 0 \<or> flagHeight fl = 0 \<or> profile_fails fl W \<or> Args fl = [] \<or>
      shown fl W = [] \<or>
      isl (newWindow (screen W) (window_size fl (shown fl W))) \<or>
      buffer_fails (screen W) (events W))"
proof (cases "flagWidth fl = 0 \<or> flagHeight fl = 0")
  case True
  then show ?thesis by (auto simp: program_def init_def aborts_def)
next
  case wh: False
  show ?thesis
  proof (cases "profile_fails fl W")
    case True
    then show ?thesis using wh
      by (auto simp: program_def init_def main_def aborts_def profile_fails_def)
  next
    case pf: False
    show ?thesis
    proof (cases "Args fl = []")
      case True
      then show ?thesis using wh pf
        by (auto simp: program_def init_def main_def aborts_def profile_fails_def usage_def
            Let_def)
    next
      case False
      obtain files lg1 where ff: "findFiles W (Args fl) = (files, lg1)"
        by (cases "findFiles W (Args fl)")
      obtain names imgs lg2 where di: "decodeImages W files = (names, imgs, lg2)"
        by (cases "decodeImages W files") auto
      have len: "length names = length imgs"
        using decodeImages_lengths [of W files] di by simp
      have sh: "shown fl W = imgs" by (simp add: shown_def ff di)
      define prof where
        "prof = (if length (flagProfile fl) > 0 then [StartCPUProfile (flagProfile fl)] else [])"
      have pr: "snd (program fl W) = snd (driver_Main fl W names imgs (prof @ lg1 @ lg2))"
        using wh pf False
        by (auto simp: program_def init_def main_def profile_fails_def Let_def ff di prof_def
            split: prod.splits)
      from driver_Main_aborts_iff [OF len, of fl W "prof @ lg1 @ lg2"] pr sh wh pf False
      show ?thesis by simp
    qed
  qed
qed

theorem program_aborts_iff_witness:
  "aborts (snd (program ex_Flags (ex_World\<lparr>events := [key_Event CodeR key_DirPress,
     size_Event \<lparr>X = 0, Y = 480\<rparr>]\<rparr>))) \<and>
   \<not> aborts (snd (program ex_Flags ex_World))"
  using program_aborts_iff [of ex_Flags "ex_World\<lparr>events := [key_Event CodeR key_DirPress,
     size_Event \<lparr>X = 0, Y = 480\<rparr>]\<rparr>"]
    program_aborts_iff [of ex_Flags ex_World]
  by (simp add: ex_World_def ex_Flags_def ex_Screen_def quits_def size_fails_def
      profile_fails_def shown_def decodeImages_eq findFiles_eq expand_def dirImages_def
      dirImages_loop_acc Readdirnames_of_def decoded_def window_size_def newWindow_def)

text \<open>
  C3 as stated fails: when the file of the CPU profile cannot be created the process exits,
  although an image decodes, the window and its buffer can be created and no size event
  arrives.
\<close>

theorem abort_only_two_causes_counterexample:
  "\<not> (aborts (snd (program (ex_Flags\<lparr>flagProfile := ''/cpu.prof''\<rparr>) ex_World)) \<longleftrightarrow>
        shown (ex_Flags\<lparr>flagProfile := ''/cpu.prof''\<rparr>) ex_World = [] \<or>
        isl (newWindow (screen ex_World)
               (window_size (ex_Flags\<lparr>flagProfile := ''/cpu.prof''\<rparr>)
                  (shown (ex_Flags\<lparr>flagProfile := ''/cpu.prof''\<rparr>) ex_World))) \<or>
        buffer_fails (screen ex_World) (events ex_World))"
  by (simp add: program_def init_def main_def aborts_def
      ex_World_def ex_Flags_def ex_Screen_def
      shown_def decodeImages_eq findFiles_eq expand_def dirImages_def
      dirImages_loop_acc Readdirnames_of_def decoded_def window_size_def newWindow_def)

text \<open>
  C4, as the code has it. With a zero width or height the process logs that the width and
  height must be non-zero and exits with status 1; it prints no usage message. With a
  non-zero width and height, no positional argument and no failure to create the profile,
  it prints the usage message and exits with status 1.
\<close>

theorem zero_size_is_fatal_no_arguments_prints_usage:
  "(flagWidth fl = 0 \<or> flagHeight fl = 0 \<longrightarrow>
      program fl W =
        ([log_Print [''The width and height must be non-zero values.'']], Exit 1) \<and>
      \<not> prints_usage W (fst (program fl W))) \<and>
   (flagWidth fl \<noteq> 0 \<and> flagHeight fl \<noteq> 0 \<and> Args fl = [] \<and> \<not> profile_fails fl W \<longrightarrow>
      snd (program fl W) = Exit 1 \<and> prints_usage W (fst (program fl W)))"
  by (auto simp: program_def init_def main_def usage_def prints_usage_def profile_fails_def
      Let_def)

theorem zero_size_is_fatal_no_arguments_prints_usage_witness:
  "flagHeight (ex_Flags\<lparr>flagHeight := 0\<rparr>) = 0 \<and>
   snd (program (ex_Flags\<lparr>flagHeight := 0\<rparr>) ex_World) = Exit 1 \<and>
   flagWidth (ex_Flags\<lparr>Args := []\<rparr>) \<noteq> 0 \<and> flagHeight (ex_Flags\<lparr>Args := []\<rparr>) \<noteq> 0 \<and>
   Args (ex_Flags\<lparr>Args := []\<rparr>) = [] \<and> \<not> profile_fails (ex_Flags\<lparr>Args := []\<rparr>) ex_World \<and>
   snd (program (ex_Flags\<lparr>Args := []\<rparr>) ex_World) = Exit 1 \<and>
   prints_usage ex_World (fst (program (ex_Flags\<lparr>Args := []\<rparr>) ex_World))"
  using zero_size_is_fatal_no_arguments_prints_usage [of "ex_Flags\<lparr>flagHeight := 0\<rparr>" ex_World]
    zero_size_is_fatal_no_arguments_prints_usage [of "ex_Flags\<lparr>Args := []\<rparr>" ex_World]
  by (simp add: ex_Flags_def profile_fails_def)

text \<open>
  C4 as stated fails: with the width flag zero and a file argument, the process exits with
  status 1 and prints no usage message.
\<close>

theorem zero_width_prints_usage_counterexample:
  "\<not> (Args (ex_Flags\<lparr>flagWidth := 0\<rparr>) = [] \<or> flagWidth (ex_Flags\<lparr>flagWidth := 0\<rparr>) = 0 \<or>
      flagHeight (ex_Flags\<lparr>flagWidth := 0\<rparr>) = 0 \<longrightarrow>
        prints_usage ex_World (fst (program (ex_Flags\<lparr>flagWidth := 0\<rparr>) ex_World)) \<and>
        exits_nonzero (snd (program (ex_Flags\<lparr>flagWidth := 0\<rparr>) ex_World)))"
  by (simp add: program_def init_def ex_Flags_def prints_usage_def usage_def)

end
